theory Spec2Isabelle
  imports Complex_Main
begin

section \<open>The game engine of game.js (class GeometryDashGame)\<close>

text \<open>
  The engine is one mutable object whose methods read and write its fields. It is
  modelled by a record of those fields and one HOL function per method, taking the
  state and returning the new one.

  JavaScript numbers are IEEE doubles. The model uses \<open>real\<close> for positions and
  velocities and \<open>int\<close> for the score and the distance (which the code always
  produces with \<open>Math.floor\<close>); a number that may be \<open>NaN\<close> (the loaded high score)
  has the type \<open>jsnum\<close>. Rounding of doubles is not modelled.

  \<open>Math.random\<close> is an argument: \<open>rnd i\<close> is the \<open>i\<close>-th draw made by the call.
  What the browser supplies (canvas size, page visibility, audio support) is the
  record \<open>env\<close>.
\<close>

subsection \<open>Data\<close>

datatype game_state = Start | Playing | Dead | Win

text \<open>The player object of the constructor. \<open>px\<close>, \<open>py\<close>, \<open>pwidth\<close>, \<open>pheight\<close> are
  the fields \<open>x\<close>, \<open>y\<close>, \<open>width\<close>, \<open>height\<close>; \<open>pcolor\<close> is \<open>color\<close>.\<close>

record player =
  px :: real
  py :: real
  pwidth :: real
  pheight :: real
  velocityY :: real
  rotation :: real
  rotationSpeed :: real
  isJumping :: bool
  jumpStartTime :: real
  pcolor :: string
  groundY :: real

text \<open>An obstacle \<open>{x, y, width, height, color}\<close>.\<close>

record obstacle =
  ox :: real
  oy :: real
  owidth :: real
  oheight :: real
  ocolor :: string

text \<open>A platform or a spike \<open>{x, y, width, height}\<close>.\<close>

record rect =
  rx :: real
  ry :: real
  rwidth :: real
  rheight :: real

record level =
  levelWidth :: real
  groundHeight :: real
  obstacles :: "obstacle list"
  platforms :: "rect list"
  spikes :: "rect list"

record particle =
  ptx :: real
  pty :: real
  vx :: real
  vy :: real
  life :: real
  maxLife :: real
  psize :: real
  ptcolor :: string

record element =
  ex :: real
  ey :: real
  esize :: real
  opacity :: real

record layer =
  speed :: real
  lcolor :: string
  elements :: "element list"

subsection \<open>Numbers that may be NaN\<close>

datatype jsnum = NaN | Fin int

text \<open>\<open>a > b\<close> of JavaScript for an integer \<open>a\<close>: false when \<open>b\<close> is \<open>NaN\<close>.\<close>

fun js_gt :: "int \<Rightarrow> jsnum \<Rightarrow> bool" where
  "js_gt a NaN = False"
| "js_gt a (Fin b) = (a > b)"

subsection \<open>checkCollision\<close>

definition checkCollision ::
  "real \<Rightarrow> real \<Rightarrow> real \<Rightarrow> real \<Rightarrow> real \<Rightarrow> real \<Rightarrow> real \<Rightarrow> real \<Rightarrow> bool" where
  "checkCollision x1 y1 w1 h1 x2 y2 w2 h2 =
     (x1 < x2 + w2 \<and> x1 + w1 > x2 \<and> y1 < y2 + h2 \<and> y1 + h1 > y2)"

subsection \<open>Browser environment\<close>

text \<open>What the page and the browser supply to a call: \<open>canvas.offsetHeight\<close> and
  \<open>canvas.offsetWidth\<close> (non-negative integers), the rectangle returned by
  \<open>getBoundingClientRect\<close>, \<open>document.hidden\<close>, whether an \<open>AudioContext\<close> can be
  constructed and whether it starts suspended.\<close>

record env =
  offsetHeight :: nat
  offsetWidth :: nat
  rectHeight :: real
  rectWidth :: real
  hidden :: bool
  audioSupported :: bool
  audioSuspended :: bool

text \<open>\<open>this.canvas.offsetHeight || 600\<close>: the right operand is taken when the left one is
  \<open>0\<close>.\<close>

definition logicalHeight :: "env \<Rightarrow> real" where
  "logicalHeight e = (if offsetHeight e = 0 then 600 else real (offsetHeight e))"

definition logicalWidth :: "env \<Rightarrow> real" where
  "logicalWidth e = (if offsetWidth e = 0 then 1200 else real (offsetWidth e))"

text \<open>The four page elements the engine looks up with \<open>getElementById\<close>. \<open>None\<close> is an
  absent element; for the three screens \<open>Some b\<close> says whether the element is displayed;
  for \<open>finalScore\<close> the value is its text content.\<close>

record dom =
  startScreen :: "bool option"
  gameOverScreen :: "bool option"
  finalScore :: "string option"
  newHighScore :: "bool option"

subsection \<open>The Score Store: localStorage\<close>

text \<open>A call of the store either throws or returns. \<open>getThrows\<close> and \<open>setThrows\<close> say
  whether \<open>getItem\<close> and \<open>setItem\<close> throw (storage disabled, quota exceeded).\<close>

datatype 'a completion = Throws | Returns 'a

record storage =
  getThrows :: bool
  setThrows :: bool
  items :: "string \<rightharpoonup> string"

definition getItem :: "storage \<Rightarrow> string \<Rightarrow> string option completion" where
  "getItem st k = (if getThrows st then Throws else Returns (items st k))"

definition setItem :: "storage \<Rightarrow> string \<Rightarrow> string \<Rightarrow> storage completion" where
  "setItem st k v =
     (if setThrows st then Throws else Returns (st\<lparr>items := (items st)(k \<mapsto> v)\<rparr>))"

definition highScoreKey :: string where
  "highScoreKey = ''geometryDashHighScore''"

text \<open>\<open>parseInt(s, 10)\<close> of ECMAScript: skip leading white space, read an optional
  sign, take the longest prefix of decimal digits; no digit gives \<open>NaN\<close>. Strings are
  lists of 8-bit characters here, so the white space characters are the seven below
  U+0100. The integer read is kept exact (JavaScript rounds it to a double).\<close>

definition isWhiteSpace :: "char \<Rightarrow> bool" where
  "isWhiteSpace c = ((of_char c :: nat) \<in> {9, 10, 11, 12, 13, 32, 160})"

definition isDigit :: "char \<Rightarrow> bool" where
  "isDigit c = (48 \<le> (of_char c :: nat) \<and> (of_char c :: nat) \<le> 57)"

definition digitValue :: "char \<Rightarrow> int" where
  "digitValue c = int (of_char c) - 48"

definition digitsValue :: "string \<Rightarrow> int" where
  "digitsValue z = foldl (\<lambda>a c. 10 * a + digitValue c) 0 z"

definition parseInt :: "string \<Rightarrow> jsnum" where
  "parseInt str =
     (let s = dropWhile isWhiteSpace str;
          sign = (if s \<noteq> [] \<and> hd s = CHR ''-'' then - 1 else 1);
          s = (if s \<noteq> [] \<and> (hd s = CHR ''+'' \<or> hd s = CHR ''-'') then tl s else s);
          z = takeWhile isDigit s
      in if z = [] then NaN else Fin (sign * digitsValue z))"

text \<open>\<open>n.toString()\<close> for an integer \<open>n\<close>: its decimal digits, with a minus sign when
  negative.\<close>

definition digitChar :: "nat \<Rightarrow> char" where
  "digitChar d = char_of (48 + d)"

fun digitsOf :: "nat \<Rightarrow> string" where
  "digitsOf n = (if n < 10 then [digitChar n] else digitsOf (n div 10) @ [digitChar (n mod 10)])"

declare digitsOf.simps [simp del]

definition toString :: "int \<Rightarrow> string" where
  "toString n = (if n < 0 then CHR ''-'' # digitsOf (nat (- n)) else digitsOf (nat n))"

text \<open>\<open>stored ? parseInt(stored, 10) : 0\<close> inside \<open>try\<close>; the \<open>catch\<close> returns \<open>0\<close>. A
  string is falsy exactly when it is empty.\<close>

definition loadHighScore :: "storage \<Rightarrow> jsnum" where
  "loadHighScore st =
     (case getItem st highScoreKey of
        Throws \<Rightarrow> Fin 0
      | Returns stored \<Rightarrow>
          (case stored of
             None \<Rightarrow> Fin 0
           | Some str \<Rightarrow> if str = [] then Fin 0 else parseInt str))"

text \<open>\<open>saveHighScore\<close>: the \<open>catch\<close> only logs, so a failed write leaves the store as it
  was.\<close>

definition saveHighScore :: "int \<Rightarrow> storage \<Rightarrow> storage" where
  "saveHighScore n st =
     (case setItem st highScoreKey (toString n) of
        Throws \<Rightarrow> st
      | Returns st' \<Rightarrow> st')"

subsection \<open>The engine's state\<close>

text \<open>The fields of \<open>GeometryDashGame\<close> that its logic reads or writes, with the store
  and the page elements it reaches as \<open>localStorage\<close> and \<open>document\<close>. \<open>sounds\<close> is the
  list of tones started so far. The physics constants (\<open>scrollSpeed\<close>, \<open>gravity\<close>,
  \<open>jumpPower\<close>, \<open>maxJumpHold\<close>, \<open>holdJumpBonus\<close>) are assigned once in the constructor
  and nowhere else, so they are constants here. The fields \<open>keys\<close>, \<open>audio\<close> and
  \<open>lastTime\<close> are never read by the logic and are left out, as is the canvas bitmap
  that \<open>render\<close> paints.\<close>

datatype sound = JumpSound | DeathSound | MusicBeat

record game =
  gameState :: game_state
  cameraX :: real
  player :: player
  jumpHeld :: bool
  jumpHeldTime :: nat
  level :: level
  parallaxLayers :: "layer list"
  particles :: "particle list"
  audioContext :: bool
  audioContextReady :: bool
  sounds :: "sound list"
  score :: int
  distance :: int
  highScore :: jsnum
  localStorage :: storage
  document :: dom

definition scrollSpeed :: real where "scrollSpeed = 5"
definition gravity :: real where "gravity = 0.8"
definition jumpPower :: real where "jumpPower = - 16"
definition maxJumpHold :: real where "maxJumpHold = 300"
definition holdJumpBonus :: real where "holdJumpBonus = 0.35"

subsection \<open>Audio\<close>

text \<open>Each tone is played only when the audio context exists and is ready.
  \<open>startBackgroundMusic\<close> plays one beat at once; the later beats come from a timer and
  are not part of the call.\<close>

definition playJumpSound :: "game \<Rightarrow> game" where
  "playJumpSound s =
     (if \<not> audioContext s \<or> \<not> audioContextReady s then s
      else s\<lparr>sounds := sounds s @ [JumpSound]\<rparr>)"

definition playDeathSound :: "game \<Rightarrow> game" where
  "playDeathSound s =
     (if \<not> audioContext s \<or> \<not> audioContextReady s then s
      else s\<lparr>sounds := sounds s @ [DeathSound]\<rparr>)"

definition startBackgroundMusic :: "game \<Rightarrow> game" where
  "startBackgroundMusic s =
     (if \<not> audioContext s \<or> \<not> audioContextReady s then s
      else if gameState s = Playing \<or> gameState s = Start
           then s\<lparr>sounds := sounds s @ [MusicBeat]\<rparr>
           else s)"

definition initAudio :: "env \<Rightarrow> game \<Rightarrow> game" where
  "initAudio e s =
     (if audioSupported e
      then s\<lparr>audioContext := True, audioContextReady := \<not> audioSuspended e\<rparr>
      else s\<lparr>audioContext := False, audioContextReady := False\<rparr>)"

text \<open>The callback of \<open>audioContext.resume()\<close> in \<open>resumeAudioContext\<close>. The promise
  resolves after the call that requested it has returned, so it is a step of its
  own.\<close>

definition audioResumed :: "game \<Rightarrow> game" where
  "audioResumed s =
     (let s = s\<lparr>audioContextReady := True\<rparr>
      in if gameState s = Playing then startBackgroundMusic s else s)"

subsection \<open>Page elements\<close>

definition hideStartScreen :: "game \<Rightarrow> game" where
  "hideStartScreen s =
     s\<lparr>document := (document s)\<lparr>startScreen := map_option (\<lambda>_. False) (startScreen (document s))\<rparr>\<rparr>"

definition hideGameOverScreen :: "game \<Rightarrow> game" where
  "hideGameOverScreen s =
     s\<lparr>document := (document s)\<lparr>gameOverScreen := map_option (\<lambda>_. False) (gameOverScreen (document s))\<rparr>\<rparr>"

definition showGameOverScreen :: "game \<Rightarrow> game" where
  "showGameOverScreen s =
     (let d = document s;
          d = d\<lparr>gameOverScreen := map_option (\<lambda>_. True) (gameOverScreen d)\<rparr>;
          d = d\<lparr>finalScore :=
                 map_option (\<lambda>_. ''Distance: '' @ toString (distance s) @ ''m'') (finalScore d)\<rparr>;
          d = (if newHighScore d \<noteq> None \<and> js_gt (score s) (loadHighScore (localStorage s))
               then d\<lparr>newHighScore := Some True\<rparr> else d)
      in s\<lparr>document := d\<rparr>)"

subsection \<open>createLevel and initParallax\<close>

text \<open>Each counted loop of \<open>createLevel\<close> pushes one obstacle per index; it is the map of
  its body over the indices, appended to the list.\<close>

definition createLevel :: "env \<Rightarrow> game \<Rightarrow> game" where
  "createLevel e s =
     (let groundY' = logicalHeight e - groundHeight (level s);
          p = (player s)\<lparr>groundY := groundY' - pheight (player s)\<rparr>;
          p = p\<lparr>py := groundY p\<rparr>;
          x = 500;
          sec1 = map (\<lambda>i. \<lparr>ox = x + real i * 120, oy = groundY' - 25,
                            owidth = 35, oheight = 25, ocolor = ''#d0d0d0''\<rparr>) [0..<4];
          x = x + 480;
          sec2 = map (\<lambda>i. \<lparr>ox = x + real i * 100, oy = groundY' - 30,
                            owidth = 40, oheight = 30, ocolor = ''#b0b0b0''\<rparr>) [0..<5];
          x = x + 500;
          sec3 = map (\<lambda>i. \<lparr>ox = x + real i * 90,
                            oy = groundY' - (if i mod 2 = 0 then 25 else 35),
                            owidth = 35, oheight = (if i mod 2 = 0 then 25 else 35),
                            ocolor = ''#909090''\<rparr>) [0..<6];
          x = x + 540;
          sec4 = map (\<lambda>i. \<lparr>ox = x + real i * 80, oy = groundY' - 30,
                            owidth = 30, oheight = 30, ocolor = ''#c0c0c0''\<rparr>) [0..<8];
          x = x + 640;
          sec5 = map (\<lambda>i. let height = 20 + real (i mod 3) * 10
                           in \<lparr>ox = x + real i * 85, oy = groundY' - height,
                               owidth = 35, oheight = height, ocolor = ''#a0a0a0''\<rparr>) [0..<7];
          x = x + 595;
          sec6 = map (\<lambda>i. \<lparr>ox = x + real i * 70, oy = groundY' - 28,
                            owidth = 32, oheight = 28, ocolor = ''#e0e0e0''\<rparr>) [0..<10];
          x = x + 700
      in s\<lparr>player := p,
            level := (level s)\<lparr>obstacles :=
                                  obstacles (level s) @ sec1 @ sec2 @ sec3 @ sec4 @ sec5 @ sec6,
                                levelWidth := x + 300\<rparr>\<rparr>)"

text \<open>\<open>initParallax\<close>: layer \<open>li\<close> gets \<open>15 + li * 5\<close> elements, three draws of
  \<open>Math.random\<close> each; \<open>base\<close> counts the draws made so far.\<close>

fun initLayers ::
  "(nat \<Rightarrow> real) \<Rightarrow> real \<Rightarrow> real \<Rightarrow> nat \<Rightarrow> nat \<Rightarrow> layer list \<Rightarrow> layer list" where
  "initLayers rnd w h li base [] = []"
| "initLayers rnd w h li base (l # ls) =
     (let elementCount = 15 + li * 5
      in l\<lparr>elements :=
             map (\<lambda>i. \<lparr>ex = rnd (base + 3 * i) * w,
                       ey = rnd (base + 3 * i + 1) * h,
                       esize = 20 + rnd (base + 3 * i + 2) * 40,
                       opacity = 0.1 + real li * 0.1\<rparr>) [0..<elementCount]\<rparr>
         # initLayers rnd w h (li + 1) (base + 3 * elementCount) ls)"

definition initParallax :: "env \<Rightarrow> (nat \<Rightarrow> real) \<Rightarrow> game \<Rightarrow> game" where
  "initParallax e rnd s =
     s\<lparr>parallaxLayers :=
         initLayers rnd (levelWidth (level s))
           (logicalHeight e - groundHeight (level s)) 0 0 (parallaxLayers s)\<rparr>"

subsection \<open>The constructor\<close>

text \<open>The constructor, given the store and the page it finds. Its first call,
  \<open>resizeCanvas\<close>, runs before \<open>this.level\<close> exists and so only sizes the canvas
  bitmap; \<open>setupEventListeners\<close> registers handlers; the first \<open>gameLoop\<close> frame calls
  \<open>update\<close> in state \<open>Start\<close>, where it returns at once.\<close>

definition newGame :: "env \<Rightarrow> (nat \<Rightarrow> real) \<Rightarrow> storage \<Rightarrow> dom \<Rightarrow> game" where
  "newGame e rnd st d =
     (let s = \<lparr>gameState = Start,
               cameraX = 0,
               player = \<lparr>px = 100, py = 0, pwidth = 30, pheight = 30, velocityY = 0,
                         rotation = 0, rotationSpeed = 0, isJumping = False,
                         jumpStartTime = 0, pcolor = ''#ffffff'', groundY = 0\<rparr>,
               jumpHeld = False,
               jumpHeldTime = 0,
               level = \<lparr>levelWidth = 8000, groundHeight = 50, obstacles = [],
                        platforms = [], spikes = []\<rparr>,
               parallaxLayers =
                 [\<lparr>speed = 0.2, lcolor = ''#2a2a2a'', elements = []\<rparr>,
                  \<lparr>speed = 0.5, lcolor = ''#3a3a3a'', elements = []\<rparr>,
                  \<lparr>speed = 1.0, lcolor = ''#4a4a4a'', elements = []\<rparr>],
               particles = [],
               audioContext = False,
               audioContextReady = False,
               sounds = [],
               score = 0,
               distance = 0,
               highScore = loadHighScore st,
               localStorage = st,
               document = d\<rparr>
      in initAudio e (initParallax e rnd (createLevel e s)))"

subsection \<open>startGame, restart, die, win\<close>

definition startGame :: "game \<Rightarrow> game" where
  "startGame s =
     (if gameState s = Playing then s
      else
        let s = s\<lparr>gameState := Playing, cameraX := 0\<rparr>;
            s = s\<lparr>player := (player s)\<lparr>py := groundY (player s), velocityY := 0,
                                      isJumping := False, rotation := 0\<rparr>\<rparr>;
            s = s\<lparr>score := 0, distance := 0, particles := []\<rparr>
        in hideStartScreen (startBackgroundMusic s))"

definition restart :: "game \<Rightarrow> game" where
  "restart s = hideGameOverScreen (startGame s)"

text \<open>The high-score commit, written out twice in the source (in \<open>die\<close> and in \<open>win\<close>):
  \<open>if (this.score > this.highScore) { this.highScore = this.score;
  this.saveHighScore(this.highScore); }\<close>.\<close>

definition checkHighScore :: "game \<Rightarrow> game" where
  "checkHighScore s =
     (if js_gt (score s) (highScore s)
      then s\<lparr>highScore := Fin (score s),
             localStorage := saveHighScore (score s) (localStorage s)\<rparr>
      else s)"

text \<open>The twenty death particles; particle \<open>i\<close> uses the draws \<open>3 i\<close>, \<open>3 i + 1\<close> and
  \<open>3 i + 2\<close>.\<close>

definition deathParticles :: "(nat \<Rightarrow> real) \<Rightarrow> player \<Rightarrow> particle list" where
  "deathParticles rnd p =
     map (\<lambda>i. \<lparr>ptx = px p + pwidth p / 2,
               pty = py p + pheight p / 2,
               vx = (rnd (3 * i) - 0.5) * 10,
               vy = (rnd (3 * i + 1) - 0.5) * 10,
               life = 30, maxLife = 30,
               psize = 5 + rnd (3 * i + 2) * 5,
               ptcolor = ''#ffffff''\<rparr>) [0..<20]"

definition die :: "(nat \<Rightarrow> real) \<Rightarrow> game \<Rightarrow> game" where
  "die rnd s =
     (if gameState s = Dead then s
      else
        let s = playDeathSound (s\<lparr>gameState := Dead\<rparr>);
            s = s\<lparr>particles := particles s @ deathParticles rnd (player s)\<rparr>;
            s = checkHighScore s
        in showGameOverScreen s)"

definition win :: "game \<Rightarrow> game" where
  "win s = checkHighScore (s\<lparr>gameState := Win\<rparr>)"

subsection \<open>Jump input\<close>

text \<open>\<open>isOnGround\<close>: the ground test, then the loop over the platforms, which returns
  true at the first platform under the player's feet.\<close>

definition isOnGround :: "game \<Rightarrow> bool" where
  "isOnGround s =
     (let p = player s
      in if py p + pheight p \<ge> groundY p - 2 then True
         else list_ex (\<lambda>platform.
                let platformScreenX = rx platform - cameraX s
                in platformScreenX < px p + pwidth p \<and>
                   platformScreenX + rwidth platform > px p \<and>
                   \<bar>(py p + pheight p) - ry platform\<bar> < 5 \<and>
                   velocityY p \<ge> 0) (platforms (level s)))"

text \<open>\<open>handleJumpStart\<close>. Its first statement asks the audio context to resume; the
  effect comes later (\<open>audioResumed\<close>).\<close>

definition handleJumpStart :: "game \<Rightarrow> game" where
  "handleJumpStart s =
     (if gameState s = Start then startGame s
      else if gameState s = Dead then restart s
      else if gameState s \<noteq> Playing then s
      else if \<not> isJumping (player s) \<and> isOnGround s then
        playJumpSound
          (s\<lparr>player := (player s)\<lparr>velocityY := jumpPower, isJumping := True,
                                    rotationSpeed := 15\<rparr>,
             jumpHeld := True, jumpHeldTime := 0\<rparr>)
      else if isJumping (player s) \<and> jumpHeld s then
        let s = s\<lparr>jumpHeldTime := jumpHeldTime s + 1\<rparr>
        in if real (jumpHeldTime s) < maxJumpHold / 16
           then s\<lparr>player := (player s)\<lparr>velocityY := velocityY (player s) + holdJumpBonus\<rparr>\<rparr>
           else s
      else s)"

definition handleJumpEnd :: "game \<Rightarrow> game" where
  "handleJumpEnd s = s\<lparr>jumpHeld := False, jumpHeldTime := 0\<rparr>"

subsection \<open>update: the per-frame tick\<close>

text \<open>The statements of \<open>update\<close> in source order, one definition per commented block.\<close>

definition updateCamera :: "game \<Rightarrow> game" where
  "updateCamera s =
     (let s = s\<lparr>cameraX := cameraX s + scrollSpeed\<rparr>;
          s = s\<lparr>distance := \<lfloor>cameraX s / 10\<rfloor>\<rparr>
      in s\<lparr>score := distance s\<rparr>)"

definition updatePhysics :: "player \<Rightarrow> player" where
  "updatePhysics p =
     (let p = p\<lparr>velocityY := velocityY p + gravity\<rparr>
      in p\<lparr>py := py p + velocityY p\<rparr>)"

definition updateRotation :: "player \<Rightarrow> player" where
  "updateRotation p =
     (if isJumping p then
        let p = p\<lparr>rotation := rotation p + rotationSpeed p\<rparr>
        in if rotation p \<ge> 360 then p\<lparr>rotation := rotation p - 360\<rparr> else p
      else
        let p = p\<lparr>rotation := rotation p + 5\<rparr>
        in if rotation p \<ge> 360 then p\<lparr>rotation := rotation p - 360\<rparr> else p)"

definition groundCollision :: "player \<Rightarrow> player" where
  "groundCollision p =
     (if py p + pheight p \<ge> groundY p
      then p\<lparr>py := groundY p, velocityY := 0, isJumping := False, rotationSpeed := 0\<rparr>
      else p)"

text \<open>The platform loop: every platform is visited in order, each against the player
  as the earlier ones left it.\<close>

fun platformCollision :: "real \<Rightarrow> rect list \<Rightarrow> player \<Rightarrow> player" where
  "platformCollision cam [] p = p"
| "platformCollision cam (platform # rest) p =
     (let platformScreenX = rx platform - cam
      in platformCollision cam rest
           (if platformScreenX < px p + pwidth p \<and>
               platformScreenX + rwidth platform > px p \<and>
               py p + pheight p > ry platform \<and>
               py p < ry platform + rheight platform \<and>
               velocityY p > 0
            then (if py p + pheight p \<le> ry platform + 10
                  then p\<lparr>py := ry platform - pheight p, velocityY := 0,
                         isJumping := False, rotationSpeed := 0\<rparr>
                  else p)
            else p))"

definition ceilingCollision :: "player \<Rightarrow> player" where
  "ceilingCollision p = (if py p < 0 then p\<lparr>py := 0, velocityY := 0\<rparr> else p)"

text \<open>The state when the collision checks start: camera advanced, player moved and
  clamped.\<close>

definition movePlayer :: "game \<Rightarrow> game" where
  "movePlayer s =
     (let s = updateCamera s;
          p = groundCollision (updateRotation (updatePhysics (player s)));
          p = ceilingCollision (platformCollision (cameraX s) (platforms (level s)) p)
      in s\<lparr>player := p\<rparr>)"

text \<open>The two collision loops call \<open>die\<close> and return at the first hit; which obstacle
  was hit does not reach \<open>die\<close>, so each loop is the test whether some element hits.\<close>

definition hitsObstacle :: "game \<Rightarrow> bool" where
  "hitsObstacle s =
     list_ex (\<lambda>obstacle.
        let obstacleScreenX = ox obstacle - cameraX s
        in checkCollision (px (player s)) (py (player s)) (pwidth (player s)) (pheight (player s))
             obstacleScreenX (oy obstacle) (owidth obstacle) (oheight obstacle))
       (obstacles (level s))"

definition hitsSpike :: "game \<Rightarrow> bool" where
  "hitsSpike s =
     list_ex (\<lambda>spike.
        let spikeScreenX = rx spike - cameraX s
        in checkCollision (px (player s)) (py (player s)) (pwidth (player s)) (pheight (player s))
             spikeScreenX (ry spike) (rwidth spike) (rheight spike))
       (spikes (level s))"

text \<open>The test \<open>this.player.y > logicalHeight\<close> of the fall-off branch.\<close>

definition fellOffScreen :: "env \<Rightarrow> game \<Rightarrow> bool" where
  "fellOffScreen e s = (py (player s) > logicalHeight e)"

text \<open>\<open>updateParticles\<close>: one new trail particle, then every particle is moved and aged
  and those whose life has run out are removed, then the list is cut to its last
  fifty.\<close>

definition ageParticle :: "particle \<Rightarrow> particle" where
  "ageParticle q =
     (let q = q\<lparr>ptx := ptx q + vx q\<rparr>;
          q = q\<lparr>pty := pty q + vy q\<rparr>;
          q = q\<lparr>life := life q - 1\<rparr>;
          q = q\<lparr>vx := vx q * 0.95\<rparr>
      in q\<lparr>vy := vy q * 0.95\<rparr>)"

definition updateParticles :: "(nat \<Rightarrow> real) \<Rightarrow> game \<Rightarrow> game" where
  "updateParticles rnd s =
     (let p = player s;
          ps = (if gameState s = Playing
                then particles s @
                     [\<lparr>ptx = px p + pwidth p / 2, pty = py p + pheight p / 2,
                       vx = (rnd 0 - 0.5) * 2, vy = (rnd 1 - 0.5) * 2,
                       life = 20, maxLife = 20, psize = 3 + rnd 2 * 3,
                       ptcolor = pcolor p\<rparr>]
                else particles s);
          ps = filter (\<lambda>q. \<not> life q \<le> 0) (map ageParticle ps);
          ps = (if length ps > 50 then drop (length ps - 50) ps else ps)
      in s\<lparr>particles := ps\<rparr>)"

text \<open>\<open>updateParallax\<close>: every element moves left; one that has left the level is put
  back beyond its right end at a random offset. \<open>k\<close> counts the draws made so far.\<close>

fun parallaxElements ::
  "(nat \<Rightarrow> real) \<Rightarrow> real \<Rightarrow> real \<Rightarrow> real \<Rightarrow> nat \<Rightarrow> element list \<Rightarrow> element list \<times> nat" where
  "parallaxElements rnd sp cam w k [] = ([], k)"
| "parallaxElements rnd sp cam w k (el # els) =
     (let el = el\<lparr>ex := ex el - scrollSpeed * sp\<rparr>
      in if ex el + esize el < - cam
         then (let (r, k') = parallaxElements rnd sp cam w (k + 1) els
               in (el\<lparr>ex := w + rnd k * 500\<rparr> # r, k'))
         else (let (r, k') = parallaxElements rnd sp cam w k els
               in (el # r, k')))"

fun parallaxStep ::
  "(nat \<Rightarrow> real) \<Rightarrow> real \<Rightarrow> real \<Rightarrow> nat \<Rightarrow> layer list \<Rightarrow> layer list" where
  "parallaxStep rnd cam w k [] = []"
| "parallaxStep rnd cam w k (l # ls) =
     (let (els, k') = parallaxElements rnd (speed l) cam w k (elements l)
      in l\<lparr>elements := els\<rparr> # parallaxStep rnd cam w k' ls)"

definition updateParallax :: "(nat \<Rightarrow> real) \<Rightarrow> game \<Rightarrow> game" where
  "updateParallax rnd s =
     s\<lparr>parallaxLayers :=
         parallaxStep rnd (cameraX s) (levelWidth (level s)) 0 (parallaxLayers s)\<rparr>"

text \<open>\<open>update\<close>. Its two declarations of \<open>logicalHeight\<close> (lines 520 and 582) both
  read \<open>this.canvas.offsetHeight || 600\<close> within one call, so both are
  \<open>logicalHeight e\<close>; the first is used by nothing but the unused \<open>groundY\<close> of line
  521. The draws of \<open>updateParticles\<close> are \<open>rnd 0\<close>, \<open>rnd 1\<close>, \<open>rnd 2\<close>;
  \<open>updateParallax\<close> draws from \<open>rnd 3\<close> on.\<close>

definition update :: "env \<Rightarrow> (nat \<Rightarrow> real) \<Rightarrow> game \<Rightarrow> game" where
  "update e rnd s =
     (if gameState s \<noteq> Playing then s
      else
        let s = movePlayer s
        in if hitsObstacle s then die rnd s
           else if hitsSpike s then die rnd s
           else if fellOffScreen e s then die rnd s
           else if cameraX s \<ge> levelWidth (level s) then win s
           else updateParallax (\<lambda>n. rnd (n + 3)) (updateParticles rnd s))"

text \<open>A run of frames: one environment and one sequence of random draws per frame.\<close>

fun ticks :: "(env \<times> (nat \<Rightarrow> real)) list \<Rightarrow> game \<Rightarrow> game" where
  "ticks [] s = s"
| "ticks ((e, rnd) # fs) s = ticks fs (update e rnd s)"

subsection \<open>Resizing, the frame loop and the event handlers\<close>

text \<open>\<open>resizeCanvas\<close> after construction (\<open>this.level\<close> exists): \<open>rect.height ||
  offsetHeight\<close>, with the defaults 1200 by 600 when either size is 0.\<close>

definition resizeCanvas :: "env \<Rightarrow> game \<Rightarrow> game" where
  "resizeCanvas e s =
     (let width = (if rectWidth e = 0 then real (offsetWidth e) else rectWidth e);
          height = (if rectHeight e = 0 then real (offsetHeight e) else rectHeight e);
          height = (if width = 0 \<or> height = 0 then 600 else height);
          groundY' = height - groundHeight (level s);
          s = s\<lparr>player := (player s)\<lparr>groundY := groundY' - pheight (player s)\<rparr>\<rparr>
      in if gameState s = Start \<or> gameState s = Dead
         then s\<lparr>player := (player s)\<lparr>py := groundY (player s)\<rparr>\<rparr>
         else s)"

text \<open>One pass of \<open>gameLoop\<close>; \<open>render\<close> changes nothing modelled here.\<close>

definition gameLoop :: "env \<Rightarrow> (nat \<Rightarrow> real) \<Rightarrow> game \<Rightarrow> game" where
  "gameLoop e rnd s = (if \<not> hidden e then update e rnd s else s)"

text \<open>The \<open>mousedown\<close> listener of the canvas, and the \<open>click\<close> listener added by
  \<open>setupGame\<close>.\<close>

definition mouseDown :: "game \<Rightarrow> game" where
  "mouseDown s = (if gameState s = Start then startGame s else handleJumpStart s)"

definition canvasClick :: "game \<Rightarrow> game" where
  "canvasClick s = (if gameState s = Start then startGame s else s)"

text \<open>The states the engine can be in: the constructor's result, then any sequence of
  frames, input events, resizes and audio callbacks.\<close>

inductive reachable :: "game \<Rightarrow> bool" where
  r_new: "reachable (newGame e rnd st d)"
| r_frame: "reachable s \<Longrightarrow> reachable (gameLoop e rnd s)"
| r_jumpStart: "reachable s \<Longrightarrow> reachable (handleJumpStart s)"
| r_jumpEnd: "reachable s \<Longrightarrow> reachable (handleJumpEnd s)"
| r_mouseDown: "reachable s \<Longrightarrow> reachable (mouseDown s)"
| r_click: "reachable s \<Longrightarrow> reachable (canvasClick s)"
| r_start: "reachable s \<Longrightarrow> reachable (startGame s)"
| r_restart: "reachable s \<Longrightarrow> reachable (restart s)"
| r_resize: "reachable s \<Longrightarrow> reachable (resizeCanvas e s)"
| r_audio: "reachable s \<Longrightarrow> reachable (audioResumed s)"

subsection \<open>The declarations of update, as the parser sees them\<close>

text \<open>Whether a script can run at all is decided before any of its code runs: ECMAScript
  rejects a function body (and a block) whose lexically declared names, those of its own
  \<open>let\<close> and \<open>const\<close> declarations, contain a duplicate or meet one of its \<open>var\<close>
  names. For that rule a statement matters only by what it declares and by the blocks it
  contains.\<close>

datatype binding = ConstBinding | LetBinding | VarBinding

datatype stmt =
    Declare binding string
  | Plain
  | IfThen "stmt list"
  | IfThenElse "stmt list" "stmt list"
  | ForOf binding string "stmt list"

fun lexicallyDeclaredNames :: "stmt list \<Rightarrow> string list" where
  "lexicallyDeclaredNames [] = []"
| "lexicallyDeclaredNames (Declare b x # ss) =
     (if b = VarBinding then [] else [x]) @ lexicallyDeclaredNames ss"
| "lexicallyDeclaredNames (_ # ss) = lexicallyDeclaredNames ss"

fun varDeclaredNames :: "stmt \<Rightarrow> string list"
  and varDeclaredNamesList :: "stmt list \<Rightarrow> string list" where
  "varDeclaredNames (Declare b x) = (if b = VarBinding then [x] else [])"
| "varDeclaredNames Plain = []"
| "varDeclaredNames (IfThen ss) = varDeclaredNamesList ss"
| "varDeclaredNames (IfThenElse ss ts) = varDeclaredNamesList ss @ varDeclaredNamesList ts"
| "varDeclaredNames (ForOf b x ss) =
     (if b = VarBinding then [x] else []) @ varDeclaredNamesList ss"
| "varDeclaredNamesList [] = []"
| "varDeclaredNamesList (s # ss) = varDeclaredNames s @ varDeclaredNamesList ss"

text \<open>The early errors of a statement list that is a scope of its own (a function body
  or a block), and of the statements inside it.\<close>

fun nestedErrors :: "stmt \<Rightarrow> bool"
  and nestedErrorsList :: "stmt list \<Rightarrow> bool"
  and scopeErrors :: "stmt list \<Rightarrow> bool" where
  "nestedErrors (Declare b x) = False"
| "nestedErrors Plain = False"
| "nestedErrors (IfThen ss) = scopeErrors ss"
| "nestedErrors (IfThenElse ss ts) = (scopeErrors ss \<or> scopeErrors ts)"
| "nestedErrors (ForOf b x ss) =
     ((b \<noteq> VarBinding \<and> x \<in> set (varDeclaredNamesList ss)) \<or> scopeErrors ss)"
| "nestedErrorsList [] = False"
| "nestedErrorsList (s # ss) = (nestedErrors s \<or> nestedErrorsList ss)"
| "scopeErrors ss =
     (\<not> distinct (lexicallyDeclaredNames ss)
      \<or> set (lexicallyDeclaredNames ss) \<inter> set (varDeclaredNamesList ss) \<noteq> {}
      \<or> nestedErrorsList ss)"

text \<open>The body of \<open>update\<close>, statement by statement (source lines 494 to 598).\<close>

definition updateBody :: "stmt list" where
  "updateBody =
     [IfThen [Plain],
      Plain, Plain, Plain,
      Plain, Plain,
      IfThenElse [Plain, IfThen [Plain]] [Plain, IfThen [Plain]],
      Declare ConstBinding ''logicalHeight'',
      Declare ConstBinding ''groundY'',
      IfThen [Plain, Plain, Plain, Plain],
      ForOf ConstBinding ''platform''
        [Declare ConstBinding ''platformScreenX'',
         IfThen [IfThen [Plain, Plain, Plain, Plain]]],
      IfThen [Plain, Plain],
      ForOf ConstBinding ''obstacle''
        [Declare ConstBinding ''obstacleScreenX'',
         IfThen [Plain, Plain]],
      ForOf ConstBinding ''spike''
        [Declare ConstBinding ''spikeScreenX'',
         IfThen [Plain, Plain]],
      Declare ConstBinding ''logicalHeight'',
      IfThen [Plain, Plain],
      IfThen [Plain, Plain],
      Plain,
      Plain]"

text \<open>A script is accepted when no function body in it has an early error; only then
  does any of its code run.\<close>

definition scriptParses :: "(string \<times> stmt list) list \<Rightarrow> bool" where
  "scriptParses methods = (\<not> list_ex (\<lambda>m. scopeErrors (snd m)) methods)"

subsection \<open>Concrete inputs\<close>

text \<open>A browser with a 1200 by 600 canvas, an empty store, a store that holds a string
  that is no number, a store that refuses every access, and a page with all four
  elements. \<open>noRandom\<close> is \<open>Math.random\<close> returning 0 at every draw.\<close>

definition noRandom :: "nat \<Rightarrow> real" where
  "noRandom n = 0"

definition demoEnv :: env where
  "demoEnv = \<lparr>offsetHeight = 600, offsetWidth = 1200, rectHeight = 600, rectWidth = 1200,
              hidden = False, audioSupported = True, audioSuspended = True\<rparr>"

definition emptyStore :: storage where
  "emptyStore = \<lparr>getThrows = False, setThrows = False, items = Map.empty\<rparr>"

definition corruptedStore :: storage where
  "corruptedStore =
     \<lparr>getThrows = False, setThrows = False, items = [highScoreKey \<mapsto> ''abc'']\<rparr>"

definition blockedStore :: storage where
  "blockedStore = \<lparr>getThrows = True, setThrows = True, items = Map.empty\<rparr>"

definition demoPage :: dom where
  "demoPage = \<lparr>startScreen = Some True, gameOverScreen = Some False,
               finalScore = Some [], newHighScore = Some False\<rparr>"

text \<open>The game as constructed, and after \<open>startGame\<close>.\<close>

definition freshGame :: game where
  "freshGame = newGame demoEnv noRandom emptyStore demoPage"

definition runningGame :: game where
  "runningGame = startGame freshGame"

text \<open>Ten frames into a run without input (the camera at 50, the score 5, the first
  obstacle still ahead): once with the empty store, once in a browser whose store can
  be read but refuses every write (its quota is used up).\<close>

definition scoringGame :: game where
  "scoringGame = ticks (replicate 10 (demoEnv, noRandom)) runningGame"

definition fullStore :: storage where
  "fullStore = \<lparr>getThrows = False, setThrows = True, items = Map.empty\<rparr>"

definition fullStoreGame :: game where
  "fullStoreGame =
     ticks (replicate 10 (demoEnv, noRandom))
       (startGame (newGame demoEnv noRandom fullStore demoPage))"

text \<open>A browser whose canvas is 100 high, and one whose canvas is 10 high.\<close>

definition lowEnv :: env where
  "lowEnv = \<lparr>offsetHeight = 100, offsetWidth = 1200, rectHeight = 100, rectWidth = 1200,
             hidden = False, audioSupported = True, audioSuspended = True\<rparr>"

definition shrunkEnv :: env where
  "shrunkEnv = \<lparr>offsetHeight = 10, offsetWidth = 1200, rectHeight = 10, rectWidth = 1200,
                hidden = False, audioSupported = True, audioSuspended = True\<rparr>"

text \<open>A run that passes the whole level without input. After \<open>startGame\<close> the window is
  resized and \<open>resizeCanvas\<close> finds the canvas 100 high, which puts the ground line at
  20, above every obstacle (their tops were laid out for a canvas 600 high). 850 frames
  later the camera is at 4250, one frame before the level's end at 4255.\<close>

definition glidingGame :: game where
  "glidingGame = ticks (replicate 850 (lowEnv, noRandom)) (resizeCanvas lowEnv runningGame)"

section \<open>Properties\<close>

subsection \<open>What each step leaves unchanged\<close>

lemma playDeathSound_fields [simp]:
  "gameState (playDeathSound s) = gameState s"
  "cameraX (playDeathSound s) = cameraX s"
  "player (playDeathSound s) = player s"
  "jumpHeld (playDeathSound s) = jumpHeld s"
  "jumpHeldTime (playDeathSound s) = jumpHeldTime s"
  "level (playDeathSound s) = level s"
  "parallaxLayers (playDeathSound s) = parallaxLayers s"
  "particles (playDeathSound s) = particles s"
  "audioContext (playDeathSound s) = audioContext s"
  "audioContextReady (playDeathSound s) = audioContextReady s"
  "score (playDeathSound s) = score s"
  "distance (playDeathSound s) = distance s"
  "highScore (playDeathSound s) = highScore s"
  "localStorage (playDeathSound s) = localStorage s"
  "document (playDeathSound s) = document s"
  by (simp_all add: playDeathSound_def)

lemma playJumpSound_fields [simp]:
  "gameState (playJumpSound s) = gameState s"
  "cameraX (playJumpSound s) = cameraX s"
  "player (playJumpSound s) = player s"
  "jumpHeld (playJumpSound s) = jumpHeld s"
  "jumpHeldTime (playJumpSound s) = jumpHeldTime s"
  "level (playJumpSound s) = level s"
  "parallaxLayers (playJumpSound s) = parallaxLayers s"
  "particles (playJumpSound s) = particles s"
  "audioContext (playJumpSound s) = audioContext s"
  "audioContextReady (playJumpSound s) = audioContextReady s"
  "score (playJumpSound s) = score s"
  "distance (playJumpSound s) = distance s"
  "highScore (playJumpSound s) = highScore s"
  "localStorage (playJumpSound s) = localStorage s"
  "document (playJumpSound s) = document s"
  by (simp_all add: playJumpSound_def)

lemma startBackgroundMusic_fields [simp]:
  "gameState (startBackgroundMusic s) = gameState s"
  "cameraX (startBackgroundMusic s) = cameraX s"
  "player (startBackgroundMusic s) = player s"
  "jumpHeld (startBackgroundMusic s) = jumpHeld s"
  "jumpHeldTime (startBackgroundMusic s) = jumpHeldTime s"
  "level (startBackgroundMusic s) = level s"
  "parallaxLayers (startBackgroundMusic s) = parallaxLayers s"
  "particles (startBackgroundMusic s) = particles s"
  "audioContext (startBackgroundMusic s) = audioContext s"
  "audioContextReady (startBackgroundMusic s) = audioContextReady s"
  "score (startBackgroundMusic s) = score s"
  "distance (startBackgroundMusic s) = distance s"
  "highScore (startBackgroundMusic s) = highScore s"
  "localStorage (startBackgroundMusic s) = localStorage s"
  "document (startBackgroundMusic s) = document s"
  by (simp_all add: startBackgroundMusic_def)

lemma hideStartScreen_fields [simp]:
  "gameState (hideStartScreen s) = gameState s"
  "cameraX (hideStartScreen s) = cameraX s"
  "player (hideStartScreen s) = player s"
  "jumpHeld (hideStartScreen s) = jumpHeld s"
  "jumpHeldTime (hideStartScreen s) = jumpHeldTime s"
  "level (hideStartScreen s) = level s"
  "parallaxLayers (hideStartScreen s) = parallaxLayers s"
  "particles (hideStartScreen s) = particles s"
  "audioContext (hideStartScreen s) = audioContext s"
  "audioContextReady (hideStartScreen s) = audioContextReady s"
  "sounds (hideStartScreen s) = sounds s"
  "score (hideStartScreen s) = score s"
  "distance (hideStartScreen s) = distance s"
  "highScore (hideStartScreen s) = highScore s"
  "localStorage (hideStartScreen s) = localStorage s"
  by (simp_all add: hideStartScreen_def)

lemma hideGameOverScreen_fields [simp]:
  "gameState (hideGameOverScreen s) = gameState s"
  "cameraX (hideGameOverScreen s) = cameraX s"
  "player (hideGameOverScreen s) = player s"
  "jumpHeld (hideGameOverScreen s) = jumpHeld s"
  "jumpHeldTime (hideGameOverScreen s) = jumpHeldTime s"
  "level (hideGameOverScreen s) = level s"
  "parallaxLayers (hideGameOverScreen s) = parallaxLayers s"
  "particles (hideGameOverScreen s) = particles s"
  "audioContext (hideGameOverScreen s) = audioContext s"
  "audioContextReady (hideGameOverScreen s) = audioContextReady s"
  "sounds (hideGameOverScreen s) = sounds s"
  "score (hideGameOverScreen s) = score s"
  "distance (hideGameOverScreen s) = distance s"
  "highScore (hideGameOverScreen s) = highScore s"
  "localStorage (hideGameOverScreen s) = localStorage s"
  by (simp_all add: hideGameOverScreen_def)

lemma showGameOverScreen_fields [simp]:
  "gameState (showGameOverScreen s) = gameState s"
  "cameraX (showGameOverScreen s) = cameraX s"
  "player (showGameOverScreen s) = player s"
  "jumpHeld (showGameOverScreen s) = jumpHeld s"
  "jumpHeldTime (showGameOverScreen s) = jumpHeldTime s"
  "level (showGameOverScreen s) = level s"
  "parallaxLayers (showGameOverScreen s) = parallaxLayers s"
  "particles (showGameOverScreen s) = particles s"
  "audioContext (showGameOverScreen s) = audioContext s"
  "audioContextReady (showGameOverScreen s) = audioContextReady s"
  "sounds (showGameOverScreen s) = sounds s"
  "score (showGameOverScreen s) = score s"
  "distance (showGameOverScreen s) = distance s"
  "highScore (showGameOverScreen s) = highScore s"
  "localStorage (showGameOverScreen s) = localStorage s"
  by (simp_all add: showGameOverScreen_def Let_def)

lemma checkHighScore_fields [simp]:
  "gameState (checkHighScore s) = gameState s"
  "cameraX (checkHighScore s) = cameraX s"
  "player (checkHighScore s) = player s"
  "jumpHeld (checkHighScore s) = jumpHeld s"
  "jumpHeldTime (checkHighScore s) = jumpHeldTime s"
  "level (checkHighScore s) = level s"
  "parallaxLayers (checkHighScore s) = parallaxLayers s"
  "particles (checkHighScore s) = particles s"
  "audioContext (checkHighScore s) = audioContext s"
  "audioContextReady (checkHighScore s) = audioContextReady s"
  "sounds (checkHighScore s) = sounds s"
  "score (checkHighScore s) = score s"
  "distance (checkHighScore s) = distance s"
  "document (checkHighScore s) = document s"
  by (simp_all add: checkHighScore_def)

lemma updateParticles_fields [simp]:
  "gameState (updateParticles rnd s) = gameState s"
  "cameraX (updateParticles rnd s) = cameraX s"
  "player (updateParticles rnd s) = player s"
  "jumpHeld (updateParticles rnd s) = jumpHeld s"
  "jumpHeldTime (updateParticles rnd s) = jumpHeldTime s"
  "level (updateParticles rnd s) = level s"
  "parallaxLayers (updateParticles rnd s) = parallaxLayers s"
  "audioContext (updateParticles rnd s) = audioContext s"
  "audioContextReady (updateParticles rnd s) = audioContextReady s"
  "sounds (updateParticles rnd s) = sounds s"
  "score (updateParticles rnd s) = score s"
  "distance (updateParticles rnd s) = distance s"
  "highScore (updateParticles rnd s) = highScore s"
  "localStorage (updateParticles rnd s) = localStorage s"
  "document (updateParticles rnd s) = document s"
  by (simp_all add: updateParticles_def Let_def)

lemma updateParallax_fields [simp]:
  "gameState (updateParallax rnd s) = gameState s"
  "cameraX (updateParallax rnd s) = cameraX s"
  "player (updateParallax rnd s) = player s"
  "jumpHeld (updateParallax rnd s) = jumpHeld s"
  "jumpHeldTime (updateParallax rnd s) = jumpHeldTime s"
  "level (updateParallax rnd s) = level s"
  "particles (updateParallax rnd s) = particles s"
  "audioContext (updateParallax rnd s) = audioContext s"
  "audioContextReady (updateParallax rnd s) = audioContextReady s"
  "sounds (updateParallax rnd s) = sounds s"
  "score (updateParallax rnd s) = score s"
  "distance (updateParallax rnd s) = distance s"
  "highScore (updateParallax rnd s) = highScore s"
  "localStorage (updateParallax rnd s) = localStorage s"
  "document (updateParallax rnd s) = document s"
  by (simp_all add: updateParallax_def)

lemma handleJumpEnd_fields [simp]:
  "gameState (handleJumpEnd s) = gameState s"
  "cameraX (handleJumpEnd s) = cameraX s"
  "player (handleJumpEnd s) = player s"
  "level (handleJumpEnd s) = level s"
  "parallaxLayers (handleJumpEnd s) = parallaxLayers s"
  "particles (handleJumpEnd s) = particles s"
  "audioContext (handleJumpEnd s) = audioContext s"
  "audioContextReady (handleJumpEnd s) = audioContextReady s"
  "sounds (handleJumpEnd s) = sounds s"
  "score (handleJumpEnd s) = score s"
  "distance (handleJumpEnd s) = distance s"
  "highScore (handleJumpEnd s) = highScore s"
  "localStorage (handleJumpEnd s) = localStorage s"
  "document (handleJumpEnd s) = document s"
  by (simp_all add: handleJumpEnd_def)

lemma win_fields [simp]:
  "cameraX (win s) = cameraX s"
  "player (win s) = player s"
  "jumpHeld (win s) = jumpHeld s"
  "jumpHeldTime (win s) = jumpHeldTime s"
  "level (win s) = level s"
  "parallaxLayers (win s) = parallaxLayers s"
  "particles (win s) = particles s"
  "audioContext (win s) = audioContext s"
  "audioContextReady (win s) = audioContextReady s"
  "sounds (win s) = sounds s"
  "score (win s) = score s"
  "distance (win s) = distance s"
  "document (win s) = document s"
  by (simp_all add: win_def)

lemma die_fields [simp]:
  "cameraX (die rnd s) = cameraX s"
  "player (die rnd s) = player s"
  "jumpHeld (die rnd s) = jumpHeld s"
  "jumpHeldTime (die rnd s) = jumpHeldTime s"
  "level (die rnd s) = level s"
  "parallaxLayers (die rnd s) = parallaxLayers s"
  "audioContext (die rnd s) = audioContext s"
  "audioContextReady (die rnd s) = audioContextReady s"
  "score (die rnd s) = score s"
  "distance (die rnd s) = distance s"
  by (simp_all add: die_def Let_def)

lemma updateCamera_fields [simp]:
  "gameState (updateCamera s) = gameState s"
  "player (updateCamera s) = player s"
  "jumpHeld (updateCamera s) = jumpHeld s"
  "jumpHeldTime (updateCamera s) = jumpHeldTime s"
  "level (updateCamera s) = level s"
  "parallaxLayers (updateCamera s) = parallaxLayers s"
  "particles (updateCamera s) = particles s"
  "audioContext (updateCamera s) = audioContext s"
  "audioContextReady (updateCamera s) = audioContextReady s"
  "sounds (updateCamera s) = sounds s"
  "highScore (updateCamera s) = highScore s"
  "localStorage (updateCamera s) = localStorage s"
  "document (updateCamera s) = document s"
  by (simp_all add: updateCamera_def Let_def)

lemma movePlayer_fields [simp]:
  "gameState (movePlayer s) = gameState s"
  "jumpHeld (movePlayer s) = jumpHeld s"
  "jumpHeldTime (movePlayer s) = jumpHeldTime s"
  "level (movePlayer s) = level s"
  "parallaxLayers (movePlayer s) = parallaxLayers s"
  "particles (movePlayer s) = particles s"
  "audioContext (movePlayer s) = audioContext s"
  "audioContextReady (movePlayer s) = audioContextReady s"
  "sounds (movePlayer s) = sounds s"
  "highScore (movePlayer s) = highScore s"
  "localStorage (movePlayer s) = localStorage s"
  "document (movePlayer s) = document s"
  by (simp_all add: movePlayer_def Let_def)

lemma die_gameState [simp]: "gameState (die rnd s) = Dead"
  by (simp add: die_def Let_def)

lemma win_gameState [simp]: "gameState (win s) = Win"
  by (simp add: win_def)

lemma updateCamera_moved [simp]:
  "cameraX (updateCamera s) = cameraX s + scrollSpeed"
  "distance (updateCamera s) = \<lfloor>(cameraX s + scrollSpeed) / 10\<rfloor>"
  "score (updateCamera s) = \<lfloor>(cameraX s + scrollSpeed) / 10\<rfloor>"
  by (simp_all add: updateCamera_def Let_def)

lemma movePlayer_moved [simp]:
  "cameraX (movePlayer s) = cameraX s + scrollSpeed"
  "distance (movePlayer s) = \<lfloor>(cameraX s + scrollSpeed) / 10\<rfloor>"
  "score (movePlayer s) = \<lfloor>(cameraX s + scrollSpeed) / 10\<rfloor>"
  by (simp_all add: movePlayer_def Let_def)

lemma startGame_fields [simp]:
  "gameState (startGame s) = Playing"
  "level (startGame s) = level s"
  "highScore (startGame s) = highScore s"
  "localStorage (startGame s) = localStorage s"
  "jumpHeld (startGame s) = jumpHeld s"
  "jumpHeldTime (startGame s) = jumpHeldTime s"
  "px (player (startGame s)) = px (player s)"
  "pwidth (player (startGame s)) = pwidth (player s)"
  "pheight (player (startGame s)) = pheight (player s)"
  "groundY (player (startGame s)) = groundY (player s)"
  by (simp_all add: startGame_def Let_def)

lemma startGame_from_Start:
  "gameState s \<noteq> Playing \<Longrightarrow>
     player (startGame s) = (player s)\<lparr>py := groundY (player s), velocityY := 0,
                                        isJumping := False, rotation := 0\<rparr> \<and>
     cameraX (startGame s) = 0 \<and> score (startGame s) = 0 \<and> distance (startGame s) = 0"
  by (simp add: startGame_def Let_def)

lemma updatePhysics_static [simp]:
  "px (updatePhysics p) = px p" "pwidth (updatePhysics p) = pwidth p"
  "pheight (updatePhysics p) = pheight p" "groundY (updatePhysics p) = groundY p"
  by (simp_all add: updatePhysics_def Let_def)

lemma updateRotation_static [simp]:
  "px (updateRotation p) = px p" "pwidth (updateRotation p) = pwidth p"
  "pheight (updateRotation p) = pheight p" "groundY (updateRotation p) = groundY p"
  "py (updateRotation p) = py p"
  by (simp_all add: updateRotation_def Let_def)

lemma groundCollision_static [simp]:
  "px (groundCollision p) = px p" "pwidth (groundCollision p) = pwidth p"
  "pheight (groundCollision p) = pheight p" "groundY (groundCollision p) = groundY p"
  by (simp_all add: groundCollision_def)

lemma platformCollision_static [simp]:
  "px (platformCollision cam ps p) = px p \<and> pwidth (platformCollision cam ps p) = pwidth p \<and>
   pheight (platformCollision cam ps p) = pheight p \<and>
   groundY (platformCollision cam ps p) = groundY p"
  by (induction ps arbitrary: p) (simp_all add: Let_def)

lemma ceilingCollision_static [simp]:
  "px (ceilingCollision p) = px p" "pwidth (ceilingCollision p) = pwidth p"
  "pheight (ceilingCollision p) = pheight p" "groundY (ceilingCollision p) = groundY p"
  by (simp_all add: ceilingCollision_def)

lemma movePlayer_static [simp]:
  "px (player (movePlayer s)) = px (player s)"
  "pwidth (player (movePlayer s)) = pwidth (player s)"
  "pheight (player (movePlayer s)) = pheight (player s)"
  "groundY (player (movePlayer s)) = groundY (player s)"
  by (simp_all add: movePlayer_def Let_def)

lemma update_static [simp]:
  "level (update e rnd s) = level s"
  "px (player (update e rnd s)) = px (player s)"
  "pwidth (player (update e rnd s)) = pwidth (player s)"
  "pheight (player (update e rnd s)) = pheight (player s)"
  "groundY (player (update e rnd s)) = groundY (player s)"
  by (simp_all add: update_def Let_def)

lemma gameLoop_static [simp]:
  "level (gameLoop e rnd s) = level s"
  "px (player (gameLoop e rnd s)) = px (player s)"
  "pwidth (player (gameLoop e rnd s)) = pwidth (player s)"
  "pheight (player (gameLoop e rnd s)) = pheight (player s)"
  by (simp_all add: gameLoop_def)

lemma restart_static [simp]:
  "level (restart s) = level s"
  "px (player (restart s)) = px (player s)"
  "pwidth (player (restart s)) = pwidth (player s)"
  "pheight (player (restart s)) = pheight (player s)"
  by (simp_all add: restart_def)

lemma handleJumpStart_static [simp]:
  "level (handleJumpStart s) = level s"
  "px (player (handleJumpStart s)) = px (player s)"
  "pwidth (player (handleJumpStart s)) = pwidth (player s)"
  "pheight (player (handleJumpStart s)) = pheight (player s)"
  by (simp_all add: handleJumpStart_def Let_def)

lemma handleJumpEnd_static [simp]:
  "px (player (handleJumpEnd s)) = px (player s)"
  by simp

lemma mouseDown_static [simp]:
  "level (mouseDown s) = level s"
  "px (player (mouseDown s)) = px (player s)"
  "pwidth (player (mouseDown s)) = pwidth (player s)"
  "pheight (player (mouseDown s)) = pheight (player s)"
  by (simp_all add: mouseDown_def)

lemma canvasClick_static [simp]:
  "level (canvasClick s) = level s"
  "px (player (canvasClick s)) = px (player s)"
  "pwidth (player (canvasClick s)) = pwidth (player s)"
  "pheight (player (canvasClick s)) = pheight (player s)"
  by (simp_all add: canvasClick_def)

lemma resizeCanvas_static [simp]:
  "level (resizeCanvas e s) = level s"
  "px (player (resizeCanvas e s)) = px (player s)"
  "pwidth (player (resizeCanvas e s)) = pwidth (player s)"
  "pheight (player (resizeCanvas e s)) = pheight (player s)"
  by (simp_all add: resizeCanvas_def Let_def)

lemma audioResumed_static [simp]:
  "level (audioResumed s) = level s"
  "player (audioResumed s) = player s"
  by (simp_all add: audioResumed_def Let_def)

subsection \<open>The constructed game and the concrete inputs\<close>

lemma newGame_player:
  "player (newGame e rnd st d) =
     \<lparr>px = 100, py = logicalHeight e - 80, pwidth = 30, pheight = 30, velocityY = 0,
      rotation = 0, rotationSpeed = 0, isJumping = False, jumpStartTime = 0,
      pcolor = ''#ffffff'', groundY = logicalHeight e - 80\<rparr>"
  by (simp add: newGame_def createLevel_def initParallax_def initAudio_def Let_def)

lemma newGame_fields:
  "gameState (newGame e rnd st d) = Start"
  "cameraX (newGame e rnd st d) = 0"
  "score (newGame e rnd st d) = 0"
  "highScore (newGame e rnd st d) = loadHighScore st"
  "localStorage (newGame e rnd st d) = st"
  "platforms (level (newGame e rnd st d)) = []"
  "spikes (level (newGame e rnd st d)) = []"
  "levelWidth (level (newGame e rnd st d)) = 4255"
  "groundHeight (level (newGame e rnd st d)) = 50"
  by (simp_all add: newGame_def createLevel_def initParallax_def initAudio_def Let_def)

lemma newGame_obstacles_extent:
  "list_all (\<lambda>b. ox b + owidth b \<le> 3917) (obstacles (level (newGame e rnd st d)))"
  by (simp add: newGame_def createLevel_def initParallax_def initAudio_def Let_def
        list_all_iff) auto

lemma runningGame_fields:
  "gameState runningGame = Playing"
  "cameraX runningGame = 0"
  "score runningGame = 0"
  "player runningGame =
     \<lparr>px = 100, py = 520, pwidth = 30, pheight = 30, velocityY = 0,
      rotation = 0, rotationSpeed = 0, isJumping = False, jumpStartTime = 0,
      pcolor = ''#ffffff'', groundY = 520\<rparr>"
  "platforms (level runningGame) = []"
  "spikes (level runningGame) = []"
  "levelWidth (level runningGame) = 4255"
  "groundHeight (level runningGame) = 50"
  "highScore runningGame = Fin 0"
  by (simp_all add: runningGame_def freshGame_def startGame_from_Start newGame_fields
        newGame_player logicalHeight_def demoEnv_def loadHighScore_def getItem_def
        emptyStore_def)

subsection \<open>Reachable states\<close>

lemma reachable_static:
  "reachable s \<Longrightarrow>
     platforms (level s) = [] \<and> spikes (level s) = [] \<and>
     groundHeight (level s) = 50 \<and> levelWidth (level s) = 4255 \<and>
     list_all (\<lambda>b. ox b + owidth b \<le> 3917) (obstacles (level s)) \<and>
     px (player s) = 100 \<and> pwidth (player s) = 30 \<and> pheight (player s) = 30"
proof (induction rule: reachable.induct)
  case (r_new e rnd st d)
  show ?case by (simp add: newGame_fields newGame_player newGame_obstacles_extent)
qed simp_all

lemma reachable_runningGame: "reachable runningGame"
  unfolding runningGame_def freshGame_def by (intro r_start r_new)

subsection \<open>The duplicate declaration in update\<close>

text \<open>Claim C1. \<open>update\<close> declares \<open>const logicalHeight\<close> twice in its function scope
  (source lines 520 and 582): the lexically declared names of its body contain
  \<open>logicalHeight\<close> twice, which is an early error, so no script that contains this body
  is accepted, whatever its other functions are, and none of the engine's operations
  can run as written. The body has no other early error: without one of the two
  declarations it is accepted. (The behavioural model above reads \<open>update\<close> the way the
  text means it, the second declaration reading the canvas height again.)\<close>

theorem update_declares_logicalHeight_twice:
  "lexicallyDeclaredNames updateBody = [''logicalHeight'', ''groundY'', ''logicalHeight''] \<and>
   scopeErrors updateBody \<and>
   \<not> scopeErrors (remove1 (Declare ConstBinding ''logicalHeight'') updateBody) \<and>
   \<not> scriptParses (before @ (''update'', updateBody) # after)"
proof -
  have names: "lexicallyDeclaredNames updateBody = [''logicalHeight'', ''groundY'', ''logicalHeight'']"
    by (simp add: updateBody_def)
  then have err: "scopeErrors updateBody" by simp
  have ok: "\<not> scopeErrors (remove1 (Declare ConstBinding ''logicalHeight'') updateBody)"
    by (simp add: updateBody_def)
  from err have "\<not> scriptParses (before @ (''update'', updateBody) # after)"
    by (simp add: scriptParses_def del: scopeErrors.simps)
  with names err ok show ?thesis by blast
qed

subsection \<open>The camera\<close>

lemma update_cameraX_mono: "cameraX s \<le> cameraX (update e rnd s)"
  by (simp add: update_def Let_def scrollSpeed_def)

lemma ticks_cameraX_mono: "cameraX s \<le> cameraX (ticks fs s)"
proof (induction fs arbitrary: s)
  case Nil
  show ?case by simp
next
  case (Cons f fs)
  obtain e rnd where f: "f = (e, rnd)" by (cases f)
  have "cameraX s \<le> cameraX (update e rnd s)" by (rule update_cameraX_mono)
  also have "\<dots> \<le> cameraX (ticks fs (update e rnd s))" by (rule Cons.IH)
  finally show ?case by (simp add: f)
qed

text \<open>Claim C5. On every tick run while the state is \<open>Playing\<close>, \<open>cameraX\<close> grows by
  exactly the scroll speed, which is 5; right after the advance \<open>distance\<close> is
  \<open>floor (cameraX / 10)\<close> and \<open>score\<close> equals \<open>distance\<close>, and both still hold when the
  tick ends, whichever branch ends it. Over any sequence of frames \<open>cameraX\<close> never
  decreases.\<close>

theorem update_advances_camera:
  "gameState s = Playing \<Longrightarrow>
     scrollSpeed = 5 \<and>
     cameraX (updateCamera s) = cameraX s + 5 \<and>
     distance (updateCamera s) = \<lfloor>cameraX (updateCamera s) / 10\<rfloor> \<and>
     score (updateCamera s) = distance (updateCamera s) \<and>
     cameraX (update e rnd s) = cameraX s + 5 \<and>
     distance (update e rnd s) = \<lfloor>cameraX (update e rnd s) / 10\<rfloor> \<and>
     score (update e rnd s) = distance (update e rnd s) \<and>
     cameraX s \<le> cameraX (ticks fs s)"
  using ticks_cameraX_mono [of s fs]
  by (simp add: update_def Let_def) (simp add: scrollSpeed_def)

theorem update_advances_camera_witness:
  "gameState runningGame = Playing \<and>
   cameraX (update demoEnv noRandom runningGame) = 5 \<and>
   distance (update demoEnv noRandom runningGame) = 0 \<and>
   score (update demoEnv noRandom runningGame) = 0"
proof -
  have h: "gameState runningGame = Playing" by (simp add: runningGame_fields)
  show ?thesis
    using h update_advances_camera [OF h, of demoEnv noRandom]
    by (simp add: runningGame_fields scrollSpeed_def)
qed

subsection \<open>Collision\<close>

lemma overlap_point:
  fixes a b c d :: real
  assumes "a < d" "c < b" "a < b" "c < d"
  shows "\<exists>p. a < p \<and> p < b \<and> c < p \<and> p < d"
proof -
  from assms have "max a c < min b d" by simp
  then obtain p where "max a c < p" "p < min b d" using dense by blast
  then have "a < p \<and> p < b \<and> c < p \<and> p < d" by simp
  then show ?thesis by blast
qed

text \<open>Claim C6. \<open>checkCollision\<close> is true exactly when the two rectangles overlap
  strictly on both axes, all four comparisons being strict. Rectangles that only touch
  along an edge or at a corner do not collide, from whichever side they meet. For
  rectangles of positive size, colliding means having a common interior point.\<close>

theorem checkCollision_strict_overlap:
  "(checkCollision x1 y1 w1 h1 x2 y2 w2 h2 \<longleftrightarrow>
      x1 < x2 + w2 \<and> x2 < x1 + w1 \<and> y1 < y2 + h2 \<and> y2 < y1 + h1) \<and>
   (x1 + w1 = x2 \<or> x2 + w2 = x1 \<or> y1 + h1 = y2 \<or> y2 + h2 = y1 \<longrightarrow>
      \<not> checkCollision x1 y1 w1 h1 x2 y2 w2 h2) \<and>
   (0 < w1 \<and> 0 < h1 \<and> 0 < w2 \<and> 0 < h2 \<longrightarrow>
      (checkCollision x1 y1 w1 h1 x2 y2 w2 h2 \<longleftrightarrow>
         (\<exists>p q. x1 < p \<and> p < x1 + w1 \<and> x2 < p \<and> p < x2 + w2 \<and>
                y1 < q \<and> q < y1 + h1 \<and> y2 < q \<and> q < y2 + h2)))"
proof (intro conjI impI)
  show "checkCollision x1 y1 w1 h1 x2 y2 w2 h2 \<longleftrightarrow>
      x1 < x2 + w2 \<and> x2 < x1 + w1 \<and> y1 < y2 + h2 \<and> y2 < y1 + h1"
    by (simp add: checkCollision_def)
next
  assume "x1 + w1 = x2 \<or> x2 + w2 = x1 \<or> y1 + h1 = y2 \<or> y2 + h2 = y1"
  then show "\<not> checkCollision x1 y1 w1 h1 x2 y2 w2 h2"
    by (auto simp add: checkCollision_def)
next
  assume pos: "0 < w1 \<and> 0 < h1 \<and> 0 < w2 \<and> 0 < h2"
  show "checkCollision x1 y1 w1 h1 x2 y2 w2 h2 \<longleftrightarrow>
         (\<exists>p q. x1 < p \<and> p < x1 + w1 \<and> x2 < p \<and> p < x2 + w2 \<and>
                y1 < q \<and> q < y1 + h1 \<and> y2 < q \<and> q < y2 + h2)"
  proof
    assume c: "checkCollision x1 y1 w1 h1 x2 y2 w2 h2"
    from c pos obtain p where "x1 < p \<and> p < x1 + w1 \<and> x2 < p \<and> p < x2 + w2"
      using overlap_point [of x1 "x2 + w2" x2 "x1 + w1"] by (auto simp add: checkCollision_def)
    moreover from c pos obtain q where "y1 < q \<and> q < y1 + h1 \<and> y2 < q \<and> q < y2 + h2"
      using overlap_point [of y1 "y2 + h2" y2 "y1 + h1"] by (auto simp add: checkCollision_def)
    ultimately show "\<exists>p q. x1 < p \<and> p < x1 + w1 \<and> x2 < p \<and> p < x2 + w2 \<and>
                y1 < q \<and> q < y1 + h1 \<and> y2 < q \<and> q < y2 + h2" by blast
  next
    assume "\<exists>p q. x1 < p \<and> p < x1 + w1 \<and> x2 < p \<and> p < x2 + w2 \<and>
                y1 < q \<and> q < y1 + h1 \<and> y2 < q \<and> q < y2 + h2"
    then show "checkCollision x1 y1 w1 h1 x2 y2 w2 h2"
      by (auto simp add: checkCollision_def)
  qed
qed

theorem checkCollision_strict_overlap_witness:
  "\<not> checkCollision 100 520 30 30 130 520 35 25 \<and>
   checkCollision 100 520 30 30 125 520 35 25 \<and>
   (\<exists>p q. (100::real) < p \<and> p < 100 + 30 \<and> 125 < p \<and> p < 125 + 35 \<and>
          (520::real) < q \<and> q < 520 + 30 \<and> 520 < q \<and> q < 520 + 25)"
  using checkCollision_strict_overlap [of 100 520 30 30 130 520 35 25]
    checkCollision_strict_overlap [of 100 520 30 30 125 520 35 25]
  by (simp add: checkCollision_def)

subsection \<open>Jumping\<close>

text \<open>Claim C7. When the game is \<open>Playing\<close>, the player is on the ground and
  \<open>isJumping\<close> is false, \<open>handleJumpStart\<close> sets the vertical velocity to exactly
  \<open>jumpPower\<close>, which is negative, and sets \<open>isJumping\<close>; the game stays
  \<open>Playing\<close>.\<close>

theorem handleJumpStart_grounded:
  "gameState s = Playing \<Longrightarrow> isOnGround s \<Longrightarrow> \<not> isJumping (player s) \<Longrightarrow>
     velocityY (player (handleJumpStart s)) = jumpPower \<and>
     jumpPower < 0 \<and>
     isJumping (player (handleJumpStart s)) \<and>
     gameState (handleJumpStart s) = Playing"
  by (simp add: handleJumpStart_def jumpPower_def)

theorem handleJumpStart_grounded_witness:
  "gameState runningGame = Playing \<and> isOnGround runningGame \<and>
   \<not> isJumping (player runningGame) \<and>
   velocityY (player (handleJumpStart runningGame)) = - 16 \<and>
   isJumping (player (handleJumpStart runningGame))"
proof -
  have h1: "gameState runningGame = Playing" by (simp add: runningGame_fields)
  have h2: "isOnGround runningGame" by (simp add: isOnGround_def runningGame_fields)
  have h3: "\<not> isJumping (player runningGame)" by (simp add: runningGame_fields)
  show ?thesis
    using h1 h2 h3 handleJumpStart_grounded [OF h1 h2 h3] by (simp add: jumpPower_def)
qed

subsection \<open>Death happens once\<close>

lemma ticks_not_Playing: "gameState s \<noteq> Playing \<Longrightarrow> ticks fs s = s"
proof (induction fs arbitrary: s)
  case Nil
  show ?case by simp
next
  case (Cons f fs)
  obtain e rnd where f: "f = (e, rnd)" by (cases f)
  from Cons.prems have "update e rnd s = s" by (simp add: update_def)
  with Cons show ?case by (simp add: f)
qed

text \<open>Claim C8. \<open>die\<close> is idempotent. In state \<open>Dead\<close> it returns the whole state
  unchanged: no particle, no write to the store, no sound, no change of the page. It
  always ends in \<open>Dead\<close>, so a second call after a first changes nothing. A frame in
  \<open>Dead\<close> is a no-op of \<open>update\<close> and of \<open>gameLoop\<close>, and so is any sequence of frames:
  after the one transition to \<open>Dead\<close> its effects are never repeated.\<close>

theorem die_idempotent:
  "(gameState s = Dead \<longrightarrow> die rnd s = s) \<and>
   gameState (die rnd s) = Dead \<and>
   die rnd' (die rnd s) = die rnd s \<and>
   (gameState s = Dead \<longrightarrow> update e rnd s = s \<and> gameLoop e rnd s = s \<and> ticks fs s = s) \<and>
   ticks fs (die rnd s) = die rnd s"
proof (intro conjI impI)
  show "gameState s = Dead \<Longrightarrow> die rnd s = s" by (simp add: die_def)
  show "gameState (die rnd s) = Dead" by simp
  show "die rnd' (die rnd s) = die rnd s" by (simp add: die_def [of rnd' "die rnd s"])
  show "gameState s = Dead \<Longrightarrow> update e rnd s = s" by (simp add: update_def)
  show "gameState s = Dead \<Longrightarrow> gameLoop e rnd s = s" by (simp add: gameLoop_def update_def)
  show "gameState s = Dead \<Longrightarrow> ticks fs s = s" by (simp add: ticks_not_Playing)
  show "ticks fs (die rnd s) = die rnd s" by (simp add: ticks_not_Playing)
qed

theorem die_idempotent_witness:
  "gameState (die noRandom runningGame) = Dead \<and>
   die noRandom (die noRandom runningGame) = die noRandom runningGame \<and>
   update demoEnv noRandom (die noRandom runningGame) = die noRandom runningGame \<and>
   ticks [(demoEnv, noRandom), (demoEnv, noRandom)] (die noRandom runningGame) =
     die noRandom runningGame"
proof -
  have dead: "gameState (die noRandom runningGame) = Dead"
    using die_idempotent [of runningGame noRandom] by simp
  show ?thesis
    using dead
      die_idempotent [of "die noRandom runningGame" noRandom noRandom demoEnv
        "[(demoEnv, noRandom), (demoEnv, noRandom)]"]
    by simp
qed

subsection \<open>No platforms, no spikes\<close>

text \<open>Claim C9. The level has no platform and no spike: both lists are empty in the
  constructed game and no step of the engine changes the level. So in every reachable
  state the platform loop of \<open>update\<close> leaves the player as it is, \<open>isOnGround\<close> is the
  ground test alone, and the spike loop hits nothing.\<close>

theorem reachable_level_without_platforms_and_spikes:
  "reachable s \<Longrightarrow>
     platforms (level s) = [] \<and> spikes (level s) = [] \<and>
     platformCollision cam (platforms (level s)) p = p \<and>
     isOnGround s = (py (player s) + pheight (player s) \<ge> groundY (player s) - 2) \<and>
     \<not> hitsSpike s"
  by (simp add: reachable_static isOnGround_def hitsSpike_def Let_def)

theorem reachable_level_without_platforms_and_spikes_witness:
  "reachable runningGame \<and>
   platforms (level runningGame) = [] \<and> spikes (level runningGame) = [] \<and>
   isOnGround runningGame \<and> \<not> hitsSpike runningGame"
  using reachable_runningGame
    reachable_level_without_platforms_and_spikes [OF reachable_runningGame]
  by (simp add: runningGame_fields)

subsection \<open>The fall-off branch\<close>

lemma logicalHeight_pos: "0 < logicalHeight e"
  by (simp add: logicalHeight_def)

lemma groundCollision_bound: "0 \<le> pheight p \<Longrightarrow> py (groundCollision p) \<le> groundY p"
  by (simp add: groundCollision_def)

lemma platformCollision_bound: "py (platformCollision cam ps p) \<le> py p"
proof (induction ps arbitrary: p)
  case Nil
  show ?case by simp
next
  case (Cons platform rest)
  let ?q = "p\<lparr>py := ry platform - pheight p, velocityY := 0,
                isJumping := False, rotationSpeed := 0\<rparr>"
  show ?case
  proof (cases "platformCollision cam (platform # rest) p = platformCollision cam rest p")
    case True
    then show ?thesis using Cons.IH [of p] by simp
  next
    case False
    then have eq: "platformCollision cam (platform # rest) p = platformCollision cam rest ?q"
      and lt: "py p + pheight p > ry platform"
      by (auto simp add: Let_def split: if_splits)
    have "py (platformCollision cam rest ?q) \<le> py ?q" by (rule Cons.IH)
    also have "\<dots> \<le> py p" using lt by simp
    finally show ?thesis using eq by simp
  qed
qed

lemma ceilingCollision_bound: "py (ceilingCollision p) \<le> max 0 (py p)"
  by (simp add: ceilingCollision_def)

lemma movePlayer_py_bound:
  assumes "0 \<le> pheight (player s)"
  shows "py (player (movePlayer s)) \<le> max 0 (groundY (player s))"
proof -
  let ?p = "groundCollision (updateRotation (updatePhysics (player s)))"
  let ?q = "platformCollision (cameraX (updateCamera s)) (platforms (level s)) ?p"
  have "py (player (movePlayer s)) = py (ceilingCollision ?q)"
    by (simp add: movePlayer_def Let_def)
  also have "\<dots> \<le> max 0 (py ?q)" by (rule ceilingCollision_bound)
  also have "\<dots> \<le> max 0 (py ?p)" using platformCollision_bound [of _ _ ?p] by (simp add: max.coboundedI2)
  also have "\<dots> \<le> max 0 (groundY (player s))"
    using groundCollision_bound [of "updateRotation (updatePhysics (player s))"] assms
    by (simp add: max.coboundedI2)
  finally show ?thesis .
qed

text \<open>Claim C10. The fall-off branch of \<open>update\<close> is dead code. In a reachable state
  whose \<open>groundY\<close> was set from the canvas height that the tick reads, the ground clamp
  leaves \<open>y \<le> groundY\<close>, and \<open>groundY = logicalHeight - groundHeight - height\<close> lies
  below \<open>logicalHeight\<close>. The platform loop only lowers \<open>y\<close> and the ceiling clamp lifts
  it to 0 at most, so when the test \<open>y > logicalHeight\<close> runs, \<open>y\<close> is at most the larger
  of 0 and \<open>groundY\<close> and the test is false. A \<open>Playing\<close> tick therefore equals the tick
  without that branch: \<open>die\<close> is never called through it.\<close>

theorem fall_off_branch_unreachable:
  assumes "reachable s"
    and "groundY (player s) = logicalHeight e - groundHeight (level s) - pheight (player s)"
  shows "py (groundCollision (updateRotation (updatePhysics (player s)))) \<le> groundY (player s) \<and>
         groundY (player s) < logicalHeight e \<and>
         py (player (movePlayer s)) \<le> max 0 (groundY (player s)) \<and>
         py (player (movePlayer s)) \<le> logicalHeight e \<and>
         \<not> fellOffScreen e (movePlayer s) \<and>
         (gameState s = Playing \<longrightarrow>
            update e rnd s =
              (let s' = movePlayer s
               in if hitsObstacle s' then die rnd s'
                  else if hitsSpike s' then die rnd s'
                  else if cameraX s' \<ge> levelWidth (level s') then win s'
                  else updateParallax (\<lambda>n. rnd (n + 3)) (updateParticles rnd s')))"
proof -
  from assms(1) have st: "groundHeight (level s) = 50" "pheight (player s) = 30"
    using reachable_static by blast+
  have a: "py (groundCollision (updateRotation (updatePhysics (player s)))) \<le> groundY (player s)"
    using groundCollision_bound [of "updateRotation (updatePhysics (player s))"] st by simp
  have b: "groundY (player s) < logicalHeight e" using assms(2) st by simp
  have m: "py (player (movePlayer s)) \<le> max 0 (groundY (player s))"
    using movePlayer_py_bound [of s] st by simp
  with b logicalHeight_pos [of e] have l: "py (player (movePlayer s)) \<le> logicalHeight e"
    by simp
  then have c: "\<not> fellOffScreen e (movePlayer s)"
    by (simp add: fellOffScreen_def)
  from c have d: "gameState s = Playing \<longrightarrow>
            update e rnd s =
              (let s' = movePlayer s
               in if hitsObstacle s' then die rnd s'
                  else if hitsSpike s' then die rnd s'
                  else if cameraX s' \<ge> levelWidth (level s') then win s'
                  else updateParallax (\<lambda>n. rnd (n + 3)) (updateParticles rnd s'))"
    by (simp add: update_def Let_def)
  from a b m l c d show ?thesis by blast
qed

theorem fall_off_branch_unreachable_witness:
  "reachable runningGame \<and>
   groundY (player runningGame) =
     logicalHeight demoEnv - groundHeight (level runningGame) - pheight (player runningGame) \<and>
   groundY (player runningGame) < logicalHeight demoEnv \<and>
   \<not> fellOffScreen demoEnv (movePlayer runningGame)"
proof -
  have h: "groundY (player runningGame) =
     logicalHeight demoEnv - groundHeight (level runningGame) - pheight (player runningGame)"
    by (simp add: runningGame_fields logicalHeight_def demoEnv_def)
  show ?thesis
    using reachable_runningGame h
      fall_off_branch_unreachable [OF reachable_runningGame h, of noRandom]
    by simp
qed

subsection \<open>The first frames of a run\<close>

text \<open>Before the camera reaches 370 no obstacle of the constructed level is near the
  player, so a frame without input only moves the camera, the particles and the
  background.\<close>

lemma newGame_obstacles_start:
  "list_all (\<lambda>b. 500 \<le> ox b) (obstacles (level (newGame e rnd st d)))"
  by (simp add: newGame_def createLevel_def initParallax_def initAudio_def Let_def
        list_all_iff) auto

lemma near_obstacles_miss:
  assumes "list_all (\<lambda>b. 500 \<le> ox b) (obstacles (level s))"
    and "px (player s) = 100" and "pwidth (player s) = 30" and "cameraX s \<le> 370"
  shows "\<not> hitsObstacle s"
  using assms by (auto simp add: hitsObstacle_def checkCollision_def list_all_iff list_ex_iff Let_def)

lemma update_early:
  assumes "gameState s = Playing"
    and "level s = level (newGame e0 rnd0 st0 d0)"
    and "px (player s) = 100" and "pwidth (player s) = 30" and "pheight (player s) = 30"
    and "groundY (player s) = logicalHeight e - 80"
    and "cameraX s + 5 \<le> 370"
  shows "update e rnd s = updateParallax (\<lambda>n. rnd (n + 3)) (updateParticles rnd (movePlayer s))"
proof -
  have "list_all (\<lambda>b. 500 \<le> ox b) (obstacles (level (movePlayer s)))"
    using newGame_obstacles_start [of e0 rnd0 st0 d0] assms(2) by simp
  then have a: "\<not> hitsObstacle (movePlayer s)"
    using near_obstacles_miss [of "movePlayer s"] assms by (simp add: scrollSpeed_def)
  have b: "\<not> hitsSpike (movePlayer s)" using assms(2) by (simp add: hitsSpike_def newGame_fields)
  have "py (player (movePlayer s)) \<le> max 0 (groundY (player s))"
    using movePlayer_py_bound [of s] assms by simp
  then have c: "\<not> fellOffScreen e (movePlayer s)"
    using assms(6) logicalHeight_pos [of e] by (simp add: fellOffScreen_def)
  have d: "\<not> levelWidth (level (movePlayer s)) \<le> cameraX (movePlayer s)"
    using assms by (simp add: newGame_fields scrollSpeed_def)
  from a b c d assms(1) show ?thesis by (simp add: update_def Let_def)
qed

lemma ticks_early:
  assumes "gameState s = Playing"
    and "level s = level (newGame e0 rnd0 st0 d0)"
    and "px (player s) = 100" and "pwidth (player s) = 30" and "pheight (player s) = 30"
    and "groundY (player s) = logicalHeight e - 80"
    and "cameraX s + 5 * real n \<le> 370"
    and "score s = \<lfloor>cameraX s / 10\<rfloor>"
  shows "gameState (ticks (replicate n (e, rnd)) s) = Playing \<and>
         cameraX (ticks (replicate n (e, rnd)) s) = cameraX s + 5 * real n \<and>
         score (ticks (replicate n (e, rnd)) s) = \<lfloor>(cameraX s + 5 * real n) / 10\<rfloor> \<and>
         highScore (ticks (replicate n (e, rnd)) s) = highScore s \<and>
         localStorage (ticks (replicate n (e, rnd)) s) = localStorage s"
  using assms
proof (induction n arbitrary: s)
  case 0
  then show ?case by simp
next
  case (Suc n)
  let ?u = "update e rnd s"
  have u: "?u = updateParallax (\<lambda>n. rnd (n + 3)) (updateParticles rnd (movePlayer s))"
    using update_early [of s e0 rnd0 st0 d0 e rnd] Suc.prems by simp
  have inv: "gameState ?u = Playing" "level ?u = level (newGame e0 rnd0 st0 d0)"
    "px (player ?u) = 100" "pwidth (player ?u) = 30" "pheight (player ?u) = 30"
    "groundY (player ?u) = logicalHeight e - 80"
    "cameraX ?u = cameraX s + 5" "score ?u = \<lfloor>cameraX ?u / 10\<rfloor>"
    "highScore ?u = highScore s" "localStorage ?u = localStorage s"
    using Suc.prems by (simp_all add: u scrollSpeed_def)
  have "cameraX ?u + 5 * real n \<le> 370" using Suc.prems inv by (simp add: algebra_simps)
  from Suc.IH [OF inv(1-6) this inv(8)] inv show ?case by (simp add: algebra_simps)
qed

lemma ticks_reachable:
  "reachable s \<Longrightarrow> \<not> hidden e \<Longrightarrow> reachable (ticks (replicate n (e, rnd)) s)"
proof (induction n arbitrary: s)
  case 0
  then show ?case by simp
next
  case (Suc n)
  from Suc.prems have "reachable (gameLoop e rnd s)" by (intro r_frame)
  with Suc.prems have "reachable (update e rnd s)" by (simp add: gameLoop_def)
  with Suc show ?case by simp
qed

lemma scoringGame_fields:
  "gameState scoringGame = Playing"
  "score scoringGame = 5"
  "highScore scoringGame = Fin 0"
  "localStorage scoringGame = emptyStore"
  using ticks_early [of runningGame demoEnv noRandom emptyStore demoPage demoEnv 10 noRandom]
  by (simp_all add: scoringGame_def runningGame_fields logicalHeight_def demoEnv_def)
    (simp_all add: runningGame_def freshGame_def newGame_fields demoEnv_def)

lemma fullStoreGame_fields:
  "gameState fullStoreGame = Playing"
  "score fullStoreGame = 5"
  "highScore fullStoreGame = Fin 0"
  "localStorage fullStoreGame = fullStore"
  "reachable fullStoreGame"
proof -
  let ?s = "startGame (newGame demoEnv noRandom fullStore demoPage)"
  have st: "gameState ?s = Playing" "level ?s = level (newGame demoEnv noRandom fullStore demoPage)"
    "px (player ?s) = 100" "pwidth (player ?s) = 30" "pheight (player ?s) = 30"
    "groundY (player ?s) = logicalHeight demoEnv - 80"
    "cameraX ?s + 5 * real (10::nat) \<le> 370" "score ?s = \<lfloor>cameraX ?s / 10\<rfloor>"
    "highScore ?s = Fin 0" "localStorage ?s = fullStore"
    by (simp_all add: startGame_from_Start newGame_fields newGame_player loadHighScore_def
          getItem_def fullStore_def)
  from ticks_early [OF st(1-8), of noRandom] st(9,10)
  show "gameState fullStoreGame = Playing" "score fullStoreGame = 5"
    "highScore fullStoreGame = Fin 0" "localStorage fullStoreGame = fullStore"
    by (simp_all add: fullStoreGame_def startGame_from_Start newGame_fields)
  have "reachable ?s" by (intro r_start r_new)
  then show "reachable fullStoreGame"
    unfolding fullStoreGame_def by (rule ticks_reachable) (simp add: demoEnv_def)
qed

subsection \<open>Reaching the end of the level\<close>

lemma far_obstacles_miss:
  assumes "list_all (\<lambda>b. ox b + owidth b \<le> 3917) (obstacles (level s))"
    and "px (player s) = 100" and "4255 \<le> cameraX s"
  shows "\<not> hitsObstacle s"
  using assms by (auto simp add: hitsObstacle_def checkCollision_def list_all_iff list_ex_iff Let_def)

text \<open>With the ground line at 20 the player stays above every obstacle of the constructed
  level, whose tops have \<open>y\<close> at least 510, so frames without input only move the
  camera until it reaches the level's end.\<close>

lemma newGame_obstacles_top:
  "list_all (\<lambda>b. logicalHeight e - 90 \<le> oy b) (obstacles (level (newGame e rnd st d)))"
proof -
  have "real (i mod 3) \<le> 2" for i :: nat
  proof -
    have "i mod 3 \<le> 2" by simp
    then show ?thesis using of_nat_le_iff [of "i mod 3" 2, where ?'a = real] by simp
  qed
  then show ?thesis
    by (simp add: newGame_def createLevel_def initParallax_def initAudio_def Let_def
          list_all_iff) auto
qed

lemma low_obstacles_miss:
  assumes "list_all (\<lambda>b. t \<le> oy b) (obstacles (level s))"
    and "py (player s) + pheight (player s) \<le> t"
  shows "\<not> hitsObstacle s"
  using assms by (auto simp add: hitsObstacle_def checkCollision_def list_all_iff list_ex_iff Let_def)

lemma movePlayer_lands:
  assumes "platforms (level s) = []"
    and "groundY (player s) \<le> py (player s) + velocityY (player s) + gravity + pheight (player s)"
    and "0 \<le> groundY (player s)"
  shows "py (player (movePlayer s)) = groundY (player s)"
    and "velocityY (player (movePlayer s)) = 0"
  using assms
  by (simp_all add: movePlayer_def Let_def updatePhysics_def updateRotation_def
        groundCollision_def ceilingCollision_def add.commute add.left_commute)

lemma update_gliding:
  assumes "gameState s = Playing"
    and "level s = level (newGame demoEnv rnd0 st0 d0)"
    and "px (player s) = 100" and "pwidth (player s) = 30" and "pheight (player s) = 30"
    and "groundY (player s) = 20"
    and "velocityY (player s) = 0" and "20 \<le> py (player s)"
    and "20 \<le> logicalHeight e"
    and "cameraX s + 5 < 4255"
  shows "update e rnd s = updateParallax (\<lambda>n. rnd (n + 3)) (updateParticles rnd (movePlayer s))"
    and "py (player (movePlayer s)) = 20" and "velocityY (player (movePlayer s)) = 0"
proof -
  have pl: "platforms (level s) = []" using assms(2) by (simp add: newGame_fields)
  show y: "py (player (movePlayer s)) = 20" and "velocityY (player (movePlayer s)) = 0"
    using movePlayer_lands [of s] pl assms by (simp_all add: gravity_def)
  have "list_all (\<lambda>b. 510 \<le> oy b) (obstacles (level (movePlayer s)))"
    using newGame_obstacles_top [of demoEnv rnd0 st0 d0] assms(2)
    by (simp add: logicalHeight_def demoEnv_def)
  then have a: "\<not> hitsObstacle (movePlayer s)"
    using low_obstacles_miss [of 510 "movePlayer s"] y assms by simp
  have b: "\<not> hitsSpike (movePlayer s)" using assms(2) by (simp add: hitsSpike_def newGame_fields)
  have c: "\<not> fellOffScreen e (movePlayer s)" using y assms(9) by (simp add: fellOffScreen_def)
  have d: "\<not> levelWidth (level (movePlayer s)) \<le> cameraX (movePlayer s)"
    using assms by (simp add: newGame_fields scrollSpeed_def)
  from a b c d assms(1)
  show "update e rnd s = updateParallax (\<lambda>n. rnd (n + 3)) (updateParticles rnd (movePlayer s))"
    by (simp add: update_def Let_def)
qed

lemma ticks_gliding:
  assumes "gameState s = Playing"
    and "level s = level (newGame demoEnv rnd0 st0 d0)"
    and "px (player s) = 100" and "pwidth (player s) = 30" and "pheight (player s) = 30"
    and "groundY (player s) = 20"
    and "velocityY (player s) = 0" and "20 \<le> py (player s)"
    and "20 \<le> logicalHeight e"
    and "cameraX s + 5 * real n < 4255"
  shows "gameState (ticks (replicate n (e, rnd)) s) = Playing \<and>
         level (ticks (replicate n (e, rnd)) s) = level s \<and>
         cameraX (ticks (replicate n (e, rnd)) s) = cameraX s + 5 * real n \<and>
         groundY (player (ticks (replicate n (e, rnd)) s)) = 20 \<and>
         velocityY (player (ticks (replicate n (e, rnd)) s)) = 0 \<and>
         20 \<le> py (player (ticks (replicate n (e, rnd)) s))"
  using assms
proof (induction n arbitrary: s)
  case 0
  then show ?case by simp
next
  case (Suc n)
  let ?u = "update e rnd s"
  have c: "cameraX s + 5 < 4255" using Suc.prems(10) by simp
  note g = update_gliding(1) [OF Suc.prems(1-9) c, where rnd = rnd]
    update_gliding(2,3) [OF Suc.prems(1-9) c]
  have inv: "gameState ?u = Playing" "level ?u = level (newGame demoEnv rnd0 st0 d0)"
    "px (player ?u) = 100" "pwidth (player ?u) = 30" "pheight (player ?u) = 30"
    "groundY (player ?u) = 20" "velocityY (player ?u) = 0" "20 \<le> py (player ?u)"
    "cameraX ?u = cameraX s + 5"
    using Suc.prems g(2,3) by (simp_all add: g(1) scrollSpeed_def)
  have "cameraX ?u + 5 * real n < 4255" using Suc.prems(10) inv by (simp add: algebra_simps)
  from Suc.IH [OF inv(1-8) Suc.prems(9) this] inv Suc.prems(2)
  show ?case by (simp add: algebra_simps)
qed

lemma glidingGame_fields:
  "reachable glidingGame"
  "gameState glidingGame = Playing"
  "cameraX glidingGame = 4250"
  "level glidingGame = level (newGame demoEnv noRandom emptyStore demoPage)"
  "groundY (player glidingGame) = 20"
  "velocityY (player glidingGame) = 0"
  "20 \<le> py (player glidingGame)"
proof -
  let ?s = "resizeCanvas lowEnv runningGame"
  have st: "gameState ?s = Playing"
    "level ?s = level (newGame demoEnv noRandom emptyStore demoPage)"
    "px (player ?s) = 100" "pwidth (player ?s) = 30" "pheight (player ?s) = 30"
    "groundY (player ?s) = 20" "velocityY (player ?s) = 0" "20 \<le> py (player ?s)"
    "20 \<le> logicalHeight lowEnv" "cameraX ?s + 5 * real (850::nat) < 4255"
    by (simp_all add: resizeCanvas_def Let_def runningGame_fields lowEnv_def logicalHeight_def)
      (simp_all add: runningGame_def freshGame_def)
  have c0: "cameraX ?s = 0" by (simp add: resizeCanvas_def Let_def runningGame_fields)
  from ticks_gliding [OF st, where rnd = noRandom] st(2) c0
  show "gameState glidingGame = Playing" "cameraX glidingGame = 4250"
    "level glidingGame = level (newGame demoEnv noRandom emptyStore demoPage)"
    "groundY (player glidingGame) = 20" "velocityY (player glidingGame) = 0"
    "20 \<le> py (player glidingGame)"
    unfolding glidingGame_def by simp_all
  have "reachable ?s" by (intro r_resize reachable_runningGame)
  then show "reachable glidingGame"
    unfolding glidingGame_def by (rule ticks_reachable) (simp add: lowEnv_def)
qed

text \<open>Claim C2, as the code has it. \<open>update\<close> tests the win condition last, after the
  obstacle, spike and fall-off checks of the frame: on a \<open>Playing\<close> tick where \<open>cameraX\<close>,
  after advancing, has reached \<open>level.width\<close>, the state becomes \<open>Dead\<close> when one of them
  fires and \<open>Win\<close> otherwise. In every reachable state no obstacle and no spike overlaps
  the player on such a tick (the last obstacle ends at 3917, the level at 4255), so the
  tick ends in \<open>Win\<close> unless the fall-off test \<open>y > logicalHeight\<close> fires, and then in
  \<open>Dead\<close>. When the fall-off test does not fire the tick's result is that of \<open>win\<close>
  applied right after the player has moved, as if no check had run; this is so whenever
  \<open>groundY\<close> was set from the canvas height that the tick reads.\<close>

theorem update_checks_before_win:
  "gameState s = Playing \<Longrightarrow> levelWidth (level s) \<le> cameraX s + scrollSpeed \<Longrightarrow>
     gameState (update e rnd s) =
       (if hitsObstacle (movePlayer s) \<or> hitsSpike (movePlayer s) \<or>
           fellOffScreen e (movePlayer s)
        then Dead else Win) \<and>
     (reachable s \<longrightarrow>
        \<not> hitsObstacle (movePlayer s) \<and> \<not> hitsSpike (movePlayer s) \<and>
        gameState (update e rnd s) = (if fellOffScreen e (movePlayer s) then Dead else Win) \<and>
        (\<not> fellOffScreen e (movePlayer s) \<longrightarrow> update e rnd s = win (movePlayer s)) \<and>
        (groundY (player s) = logicalHeight e - groundHeight (level s) - pheight (player s) \<longrightarrow>
           update e rnd s = win (movePlayer s) \<and> gameState (update e rnd s) = Win))"
proof -
  assume pl: "gameState s = Playing" and w: "levelWidth (level s) \<le> cameraX s + scrollSpeed"
  have a: "gameState (update e rnd s) =
       (if hitsObstacle (movePlayer s) \<or> hitsSpike (movePlayer s) \<or>
           fellOffScreen e (movePlayer s)
        then Dead else Win)"
    using pl w by (simp add: update_def Let_def)
  have b: "\<not> hitsObstacle (movePlayer s) \<and> \<not> hitsSpike (movePlayer s) \<and>
        gameState (update e rnd s) = (if fellOffScreen e (movePlayer s) then Dead else Win) \<and>
        (\<not> fellOffScreen e (movePlayer s) \<longrightarrow> update e rnd s = win (movePlayer s)) \<and>
        (groundY (player s) = logicalHeight e - groundHeight (level s) - pheight (player s) \<longrightarrow>
           update e rnd s = win (movePlayer s) \<and> gameState (update e rnd s) = Win)"
    if r: "reachable s"
  proof -
    from r have st: "levelWidth (level s) = 4255" "px (player s) = 100"
      "list_all (\<lambda>b. ox b + owidth b \<le> 3917) (obstacles (level s))"
      "spikes (level s) = []" "groundHeight (level s) = 50" "pheight (player s) = 30"
      using reachable_static by blast+
    have ho: "\<not> hitsObstacle (movePlayer s)"
      using far_obstacles_miss [of "movePlayer s"] st w by simp
    have hs: "\<not> hitsSpike (movePlayer s)" using st by (simp add: hitsSpike_def)
    have c: "gameState (update e rnd s) = (if fellOffScreen e (movePlayer s) then Dead else Win)"
      using a ho hs by simp
    have d: "update e rnd s = win (movePlayer s)" if "\<not> fellOffScreen e (movePlayer s)"
      using that pl w ho hs by (simp add: update_def Let_def)
    have f: "\<not> fellOffScreen e (movePlayer s)"
      if g: "groundY (player s) = logicalHeight e - groundHeight (level s) - pheight (player s)"
    proof -
      have "py (player (movePlayer s)) \<le> max 0 (groundY (player s))"
        using movePlayer_py_bound [of s] st by simp
      then show ?thesis using g st logicalHeight_pos [of e] by (simp add: fellOffScreen_def)
    qed
    from ho hs c d f show ?thesis by simp
  qed
  from a b show ?thesis by blast
qed

theorem update_checks_before_win_witness:
  "reachable glidingGame \<and>
   gameState glidingGame = Playing \<and>
   levelWidth (level glidingGame) \<le> cameraX glidingGame + scrollSpeed \<and>
   groundY (player glidingGame) =
     logicalHeight lowEnv - groundHeight (level glidingGame) - pheight (player glidingGame) \<and>
   \<not> hitsObstacle (movePlayer glidingGame) \<and>
   \<not> fellOffScreen lowEnv (movePlayer glidingGame) \<and>
   gameState (update lowEnv noRandom glidingGame) = Win"
proof -
  have h1: "gameState glidingGame = Playing" by (simp add: glidingGame_fields)
  have h2: "levelWidth (level glidingGame) \<le> cameraX glidingGame + scrollSpeed"
    by (simp add: glidingGame_fields newGame_fields scrollSpeed_def)
  have h3: "groundY (player glidingGame) =
     logicalHeight lowEnv - groundHeight (level glidingGame) - pheight (player glidingGame)"
    using reachable_static [OF glidingGame_fields(1)]
    by (simp add: glidingGame_fields logicalHeight_def lowEnv_def)
  show ?thesis
    using h1 h2 h3 glidingGame_fields(1)
      update_checks_before_win [OF h1 h2, of lowEnv noRandom]
    by (auto split: if_splits)
qed

text \<open>Claim C2 as stated fails on a reachable state: in the run without input above the
  obstacles, the camera reaches the level's end on a frame where the canvas is only 10
  high. The player, at 20, is below the canvas; the fall-off test, which \<open>update\<close> runs
  before the win condition, fires, and the tick ends in \<open>Dead\<close>, not in \<open>Win\<close>.\<close>

theorem end_of_level_tick_counterexample:
  "reachable glidingGame \<and>
   gameState glidingGame = Playing \<and>
   levelWidth (level glidingGame) \<le> cameraX (updateCamera glidingGame) \<and>
   \<not> hitsObstacle (movePlayer glidingGame) \<and>
   py (player (movePlayer glidingGame)) = 20 \<and>
   logicalHeight shrunkEnv = 10 \<and>
   gameState (update shrunkEnv noRandom glidingGame) = Dead \<and>
   gameState (update shrunkEnv noRandom glidingGame) \<noteq> Win"
proof -
  have pl: "platforms (level glidingGame) = []" by (simp add: glidingGame_fields newGame_fields)
  have st: "px (player glidingGame) = 100" "pheight (player glidingGame) = 30"
    "list_all (\<lambda>b. ox b + owidth b \<le> 3917) (obstacles (level glidingGame))"
    using reachable_static [OF glidingGame_fields(1)] by blast+
  have y: "py (player (movePlayer glidingGame)) = 20"
    using movePlayer_lands(1) [of glidingGame] pl st glidingGame_fields
    by (simp add: gravity_def)
  have lh: "logicalHeight shrunkEnv = 10" by (simp add: logicalHeight_def shrunkEnv_def)
  have ho: "\<not> hitsObstacle (movePlayer glidingGame)"
    using far_obstacles_miss [of "movePlayer glidingGame"] st
    by (simp add: glidingGame_fields scrollSpeed_def)
  have "fellOffScreen shrunkEnv (movePlayer glidingGame)"
    using y lh by (simp add: fellOffScreen_def)
  then have d: "gameState (update shrunkEnv noRandom glidingGame) = Dead"
    by (simp add: update_def Let_def glidingGame_fields)
  from y lh ho d show ?thesis
    by (simp add: glidingGame_fields newGame_fields scrollSpeed_def)
qed

subsection \<open>The Score Store\<close>

lemma digitChar_code: "d < 10 \<Longrightarrow> (of_char (digitChar d) :: nat) = 48 + d"
  by (simp add: digitChar_def)

lemma isDigit_digitChar: "d < 10 \<Longrightarrow> isDigit (digitChar d)"
  by (simp add: isDigit_def digitChar_code)

lemma digitValue_digitChar: "d < 10 \<Longrightarrow> digitValue (digitChar d) = int d"
  by (simp add: digitValue_def digitChar_code)

lemma isDigit_plain:
  assumes "isDigit c"
  shows "\<not> isWhiteSpace c" and "c \<noteq> CHR ''+''" and "c \<noteq> CHR ''-''"
  using assms by (auto simp add: isDigit_def isWhiteSpace_def)

lemma digitsOf_digits: "list_all isDigit (digitsOf n) \<and> digitsOf n \<noteq> []"
proof (induction n rule: digitsOf.induct)
  case (1 n)
  show ?case
  proof (cases "n < 10")
    case True
    then show ?thesis by (simp add: digitsOf.simps [of n] isDigit_digitChar)
  next
    case False
    with 1 show ?thesis by (simp add: digitsOf.simps [of n] isDigit_digitChar)
  qed
qed

lemma digitsValue_snoc: "digitsValue (z @ [c]) = 10 * digitsValue z + digitValue c"
  by (simp add: digitsValue_def)

lemma digitsValue_digitsOf: "digitsValue (digitsOf n) = int n"
proof (induction n rule: digitsOf.induct)
  case (1 n)
  show ?case
  proof (cases "n < 10")
    case True
    then show ?thesis by (simp add: digitsOf.simps [of n] digitsValue_def digitValue_digitChar)
  next
    case False
    with 1 have "digitsValue (digitsOf (n div 10)) = int (n div 10)" by simp
    with False show ?thesis
      by (simp add: digitsOf.simps [of n] digitsValue_snoc digitValue_digitChar zdiv_int zmod_int)
  qed
qed

lemma parseInt_digits:
  assumes "list_all isDigit z" and "z \<noteq> []"
  shows "parseInt z = Fin (digitsValue z)" and "parseInt (CHR ''-'' # z) = Fin (- digitsValue z)"
proof -
  from assms have hd: "isDigit (hd z)" by (cases z) simp_all
  from assms have tw: "takeWhile isDigit z = z" by (simp add: takeWhile_eq_all_conv list_all_iff)
  from hd assms(2) have dw: "dropWhile isWhiteSpace z = z"
    by (cases z) (simp_all add: isDigit_plain)
  show "parseInt z = Fin (digitsValue z)"
    using hd assms(2) by (simp add: parseInt_def Let_def isDigit_plain tw dw)
  show "parseInt (CHR ''-'' # z) = Fin (- digitsValue z)"
    using assms(2) by (simp add: parseInt_def Let_def isWhiteSpace_def tw)
qed

lemma parseInt_toString: "parseInt (toString n) = Fin n"
  using parseInt_digits [of "digitsOf (nat (- n))"] parseInt_digits [of "digitsOf (nat n)"]
    digitsOf_digits [of "nat (- n)"] digitsOf_digits [of "nat n"]
  by (simp add: toString_def digitsValue_digitsOf)

lemma toString_nonempty: "toString n \<noteq> []"
  using digitsOf_digits [of "nat n"] by (simp add: toString_def)

lemma parseInt_no_digit:
  assumes "\<forall>c\<in>set str. \<not> isDigit c"
  shows "parseInt str = NaN"
proof -
  let ?s = "dropWhile isWhiteSpace str"
  let ?t = "if ?s \<noteq> [] \<and> (hd ?s = CHR ''+'' \<or> hd ?s = CHR ''-'') then tl ?s else ?s"
  have "set ?s \<subseteq> set str" by (rule set_dropWhileD [THEN subsetI])
  moreover have "set ?t \<subseteq> set ?s" by (cases ?s) auto
  ultimately have "\<forall>c\<in>set ?t. \<not> isDigit c" using assms by blast
  then have "takeWhile isDigit ?t = []" by (cases ?t) simp_all
  then show ?thesis by (simp add: parseInt_def Let_def)
qed

lemma loadHighScore_saveHighScore:
  "\<not> getThrows st \<Longrightarrow> \<not> setThrows st \<Longrightarrow> loadHighScore (saveHighScore n st) = Fin n"
  by (simp add: loadHighScore_def saveHighScore_def getItem_def setItem_def
        toString_nonempty parseInt_toString)

text \<open>Claim C3, as the code has it. \<open>loadHighScore\<close> never throws: its result is a
  number in every case, the \<open>catch\<close> turning a failed access into 0. It returns 0 when
  access throws, when no value is stored and when the stored string is empty. For any
  other stored string it returns \<open>parseInt\<close> of it: the integer \<open>n\<close> for the string that
  \<open>saveHighScore\<close> writes for \<open>n\<close>, and \<open>NaN\<close> for a string without any decimal
  digit.\<close>

theorem loadHighScore_results:
  "(getThrows st \<longrightarrow> loadHighScore st = Fin 0) \<and>
   (\<not> getThrows st \<and> items st highScoreKey = None \<longrightarrow> loadHighScore st = Fin 0) \<and>
   (\<not> getThrows st \<and> items st highScoreKey = Some [] \<longrightarrow> loadHighScore st = Fin 0) \<and>
   (\<not> getThrows st \<and> items st highScoreKey = Some str \<and> str \<noteq> [] \<longrightarrow>
      loadHighScore st = parseInt str) \<and>
   (\<not> getThrows st \<and> items st highScoreKey = Some (toString n) \<longrightarrow>
      loadHighScore st = Fin n) \<and>
   (\<not> getThrows st \<and> items st highScoreKey = Some str \<and> str \<noteq> [] \<and>
      (\<forall>c\<in>set str. \<not> isDigit c) \<longrightarrow> loadHighScore st = NaN)"
  by (simp add: loadHighScore_def getItem_def toString_nonempty parseInt_toString
        parseInt_no_digit)

theorem loadHighScore_results_witness:
  "getThrows blockedStore \<and> loadHighScore blockedStore = Fin 0 \<and>
   \<not> getThrows emptyStore \<and> items emptyStore highScoreKey = None \<and>
   loadHighScore emptyStore = Fin 0 \<and>
   items (saveHighScore 42 emptyStore) highScoreKey = Some (toString 42) \<and>
   loadHighScore (saveHighScore 42 emptyStore) = Fin 42 \<and>
   items corruptedStore highScoreKey = Some ''abc'' \<and>
   list_all (\<lambda>c. \<not> isDigit c) ''abc'' \<and>
   loadHighScore corruptedStore = parseInt ''abc''"
  using loadHighScore_results [of blockedStore "''abc''" 42]
    loadHighScore_results [of emptyStore "''abc''" 42]
    loadHighScore_results [of "saveHighScore 42 emptyStore" "''abc''" 42]
    loadHighScore_results [of corruptedStore "''abc''" 42]
  by (simp add: blockedStore_def emptyStore_def corruptedStore_def saveHighScore_def
        setItem_def isDigit_def)

text \<open>Claim C3 as stated fails: a store that holds the string \<open>abc\<close> makes
  \<open>loadHighScore\<close> return \<open>NaN\<close>, not an integer.\<close>

theorem loadHighScore_corrupted_counterexample:
  "\<not> getThrows corruptedStore \<and> items corruptedStore highScoreKey = Some ''abc'' \<and>
   loadHighScore corruptedStore = NaN"
  by (simp add: loadHighScore_def getItem_def corruptedStore_def parseInt_def
        isWhiteSpace_def isDigit_def Let_def)

lemma saveHighScore_written:
  "\<not> setThrows st \<Longrightarrow> items (saveHighScore n st) highScoreKey = Some (toString n)"
  by (simp add: saveHighScore_def setItem_def)

lemma saveHighScore_refused: "setThrows st \<Longrightarrow> saveHighScore n st = st"
  by (simp add: saveHighScore_def setItem_def)

lemma die_commit:
  "gameState s \<noteq> Dead \<Longrightarrow>
     highScore (die rnd s) = highScore (checkHighScore s) \<and>
     localStorage (die rnd s) = localStorage (checkHighScore s)"
  by (simp add: die_def Let_def checkHighScore_def playDeathSound_def)

lemma win_commit:
  "highScore (win s) = highScore (checkHighScore s) \<and>
   localStorage (win s) = localStorage (checkHighScore s)"
  by (simp add: win_def checkHighScore_def)

lemma checkHighScore_max:
  "highScore s = Fin h \<Longrightarrow> highScore (checkHighScore s) = Fin (max h (score s))"
  by (simp add: checkHighScore_def)

text \<open>Claim C4, as the code has it. The commit in \<open>win\<close>, and in \<open>die\<close> when the state
  is not yet \<open>Dead\<close>, compares the score with the \<open>highScore\<close> field, the copy loaded
  from the store at construction. If the score is greater, \<open>highScore\<close> becomes the score
  and one write of the score's decimal string is attempted; otherwise neither the field
  nor the store changes. So the field becomes the maximum of its old value and the score.
  A store that accepts the write then holds the score's string, which reads back as the
  score; a store that refuses it is left as it was, the failure being swallowed.\<close>

theorem high_score_commit:
  "(js_gt (score s) (highScore s) \<longrightarrow>
      highScore (win s) = Fin (score s) \<and>
      localStorage (win s) = saveHighScore (score s) (localStorage s) \<and>
      (gameState s \<noteq> Dead \<longrightarrow>
         highScore (die rnd s) = Fin (score s) \<and>
         localStorage (die rnd s) = saveHighScore (score s) (localStorage s))) \<and>
   (\<not> js_gt (score s) (highScore s) \<longrightarrow>
      highScore (win s) = highScore s \<and> localStorage (win s) = localStorage s \<and>
      highScore (die rnd s) = highScore s \<and> localStorage (die rnd s) = localStorage s) \<and>
   (highScore s = Fin h \<longrightarrow>
      highScore (win s) = Fin (max h (score s)) \<and>
      (gameState s \<noteq> Dead \<longrightarrow> highScore (die rnd s) = Fin (max h (score s)))) \<and>
   (\<not> setThrows st \<longrightarrow>
      items (saveHighScore n st) highScoreKey = Some (toString n) \<and>
      (\<not> getThrows st \<longrightarrow> loadHighScore (saveHighScore n st) = Fin n)) \<and>
   (setThrows st \<longrightarrow> saveHighScore n st = st)"
proof (intro conjI impI)
  assume gt: "js_gt (score s) (highScore s)"
  show "highScore (win s) = Fin (score s)" using gt by (simp add: win_def checkHighScore_def)
  show "localStorage (win s) = saveHighScore (score s) (localStorage s)"
    using gt by (simp add: win_def checkHighScore_def)
  assume nd: "gameState s \<noteq> Dead"
  show "highScore (die rnd s) = Fin (score s)"
    using gt die_commit [OF nd] by (simp add: checkHighScore_def)
  show "localStorage (die rnd s) = saveHighScore (score s) (localStorage s)"
    using gt die_commit [OF nd] by (simp add: checkHighScore_def)
next
  assume le: "\<not> js_gt (score s) (highScore s)"
  show "highScore (win s) = highScore s" using le by (simp add: win_def checkHighScore_def)
  show "localStorage (win s) = localStorage s" using le by (simp add: win_def checkHighScore_def)
  show "highScore (die rnd s) = highScore s"
    using le die_commit [of s rnd] by (cases "gameState s = Dead") (simp_all add: die_def checkHighScore_def)
  show "localStorage (die rnd s) = localStorage s"
    using le die_commit [of s rnd] by (cases "gameState s = Dead") (simp_all add: die_def checkHighScore_def)
next
  assume h: "highScore s = Fin h"
  show "highScore (win s) = Fin (max h (score s))"
    using win_commit [of s] checkHighScore_max [OF h] by simp
  assume nd: "gameState s \<noteq> Dead"
  show "highScore (die rnd s) = Fin (max h (score s))"
    using die_commit [OF nd] checkHighScore_max [OF h] by simp
next
  assume "\<not> setThrows st"
  then show "items (saveHighScore n st) highScoreKey = Some (toString n)"
    by (rule saveHighScore_written)
next
  assume "\<not> setThrows st" "\<not> getThrows st"
  then show "loadHighScore (saveHighScore n st) = Fin n"
    by (simp add: loadHighScore_saveHighScore)
next
  assume "setThrows st"
  then show "saveHighScore n st = st" by (rule saveHighScore_refused)
qed

theorem high_score_commit_witness:
  "js_gt (score scoringGame) (highScore scoringGame) \<and>
   gameState scoringGame \<noteq> Dead \<and>
   highScore scoringGame = Fin 0 \<and>
   \<not> setThrows emptyStore \<and> \<not> getThrows emptyStore \<and>
   highScore (die noRandom scoringGame) = Fin 5 \<and>
   highScore (win scoringGame) = Fin 5 \<and>
   loadHighScore (localStorage (die noRandom scoringGame)) = Fin 5 \<and>
   \<not> js_gt (score runningGame) (highScore runningGame) \<and>
   localStorage (die noRandom runningGame) = localStorage runningGame \<and>
   setThrows fullStore \<and> saveHighScore 5 fullStore = fullStore"
  using high_score_commit [of scoringGame noRandom 0 emptyStore 5]
    high_score_commit [of runningGame noRandom 0 fullStore 5]
  by (simp add: scoringGame_fields runningGame_fields emptyStore_def fullStore_def)

text \<open>Claim C4 as stated fails where the store refuses the write: the score 5 exceeds
  the stored high score (none, read as 0), yet after \<open>die\<close> or \<open>win\<close> the store still
  holds no value and reads as 0.\<close>

theorem high_score_commit_counterexample:
  "reachable fullStoreGame \<and>
   gameState fullStoreGame = Playing \<and>
   score fullStoreGame = 5 \<and>
   highScore fullStoreGame = Fin 0 \<and>
   loadHighScore (localStorage fullStoreGame) = Fin 0 \<and>
   js_gt (score fullStoreGame) (loadHighScore (localStorage fullStoreGame)) \<and>
   items (localStorage (die noRandom fullStoreGame)) highScoreKey = None \<and>
   loadHighScore (localStorage (die noRandom fullStoreGame)) = Fin 0 \<and>
   items (localStorage (win fullStoreGame)) highScoreKey = None \<and>
   loadHighScore (localStorage (win fullStoreGame)) = Fin 0"
  by (simp add: die_def win_def Let_def checkHighScore_def fullStoreGame_fields
        saveHighScore_def setItem_def loadHighScore_def getItem_def fullStore_def
        playDeathSound_def)

end
